theory Spec2Isabelle
  imports Complex_Main
begin

section \<open>S-curve trajectory followers: the data model\<close>

text \<open>
  The development embeds \<^verbatim>\<open>UserCode/controllers/s_curve_traj_follower.c\<close> and its header.
  C \<^verbatim>\<open>float\<close> values are idealised as \<^typ>\<open>real\<close>: rounding, infinities and NaN are
  not represented in the arithmetic. The one division by a variable in the source can
  meet a zero divisor; its result is then the NaN or the infinity that IEC 60559
  prescribes, a value of the type \<open>cfloat\<close> below, with which the program goes on.
  The build without \<^verbatim>\<open>DEBUG\<close> is embedded (the field \<^verbatim>\<open>current_target\<close> is absent).

  Every function that writes through its follower pointer takes the motors and the
  follower and returns them updated. Field names are global in a theory, so the fields
  of the two configuration structures carry the prefixes \<open>cfg_\<close> and \<open>gcfg_\<close>, those
  of a group item \<open>item_\<close> and those of its configuration \<open>ic_\<close>; every other name is
  the one of the source.
\<close>

subsection \<open>Types declared in headers outside the sources\<close>

text \<open>
  \<^verbatim>\<open>SCurve_t\<close> is declared in \<^verbatim>\<open>libs/s_curve.h\<close>. The follower reads its field
  \<^verbatim>\<open>total_time\<close>; every other field is kept as one opaque component.
\<close>

record 'p SCurve_t =
  total_time :: real
  profile :: 'p

text \<open>
  The result code of \<^verbatim>\<open>SCurve_Init\<close>. The follower only compares it with
  \<^verbatim>\<open>S_CURVE_SUCCESS\<close>; one further constructor stands for every other code.
\<close>

datatype SCurve_Result_t = S_CURVE_SUCCESS | S_CURVE_FAILED

text \<open>
  \<^verbatim>\<open>PD_t\<close> is declared in \<^verbatim>\<open>libs/pid_pd.h\<close>. The follower writes \<^verbatim>\<open>ref\<close> and
  \<^verbatim>\<open>fdb\<close>, reads \<^verbatim>\<open>output\<close>, and zeroes the whole structure with \<^verbatim>\<open>memset\<close>; the
  remaining fields are one opaque component whose all-zero value is \<open>0\<close>.
\<close>

record 'q PD_t =
  ref :: real
  fdb :: real
  "output" :: real
  pd_more :: 'q

text \<open>\<^verbatim>\<open>memset(&pd, 0, sizeof(pd))\<close>: every field of the corrector is zero.\<close>

definition PD_memset0 :: "('q::zero) PD_t" where
  "PD_memset0 = \<lparr>ref = 0, fdb = 0, output = 0, pd_more = 0\<rparr>"

text \<open>
  A float that a division may have produced: a finite number, or the NaN or infinity
  that a division by zero yields.
\<close>

datatype cfloat = Finite real | NaN | PosInf | NegInf

text \<open>
  The functions of the curve module and of the corrector module are parameters of the
  model: the follower is verified for every implementation of them. \<^verbatim>\<open>SCurve_Init\<close>
  writes the curve behind its first argument and returns the result code, so the model
  returns both; the type \<open>'k\<close> stands for \<^verbatim>\<open>PD_Config_t\<close>. What \<^verbatim>\<open>SCurve_Init\<close>
  does when its start position or its start velocity is not a finite number is a
  parameter of its own, \<open>SCurve_Init_nonfinite\<close>.
\<close>

record ('p, 'q, 'k) ext =
  SCurve_Init :: "real \<Rightarrow> real \<Rightarrow> real \<Rightarrow> real \<Rightarrow> real \<Rightarrow> real \<Rightarrow> real
                   \<Rightarrow> 'p SCurve_t \<times> SCurve_Result_t"
  SCurve_Init_nonfinite :: "cfloat \<Rightarrow> real \<Rightarrow> cfloat \<Rightarrow> real \<Rightarrow> real \<Rightarrow> real \<Rightarrow> real
                   \<Rightarrow> 'p SCurve_t \<times> SCurve_Result_t"
  SCurve_CalcX :: "'p SCurve_t \<Rightarrow> real \<Rightarrow> real"
  SCurve_CalcV :: "'p SCurve_t \<Rightarrow> real \<Rightarrow> real"
  SCurve_CalcA :: "'p SCurve_t \<Rightarrow> real \<Rightarrow> real"
  SCurve_Reset :: "'p SCurve_t \<Rightarrow> 'p SCurve_t"
  PD_Init :: "'q PD_t \<Rightarrow> 'k \<Rightarrow> 'q PD_t"
  PD_Calculate :: "'q PD_t \<Rightarrow> 'q PD_t"

subsection \<open>The motor interface\<close>

text \<open>
  A \<^verbatim>\<open>Motor_VelCtrl_t*\<close> is an address; the motors live in a store indexed by address,
  so that two handles may name the same motor.
\<close>

record Motor =
  angle :: real
  velocity :: real
  vel_ref :: real

type_synonym motors = "nat \<Rightarrow> Motor"

text \<open>Modelled from the spec: \<^verbatim>\<open>MotorCtrl_GetAngle\<close> (interfaces/motor_if.h), the
  measured position of the actuator behind the handle.\<close>

definition MotorCtrl_GetAngle :: "motors \<Rightarrow> nat \<Rightarrow> real" where
  "MotorCtrl_GetAngle w c = angle (w c)"

text \<open>Modelled from the spec: \<^verbatim>\<open>MotorCtrl_GetVelocity\<close> (interfaces/motor_if.h), the
  measured velocity of the actuator behind the handle.\<close>

definition MotorCtrl_GetVelocity :: "motors \<Rightarrow> nat \<Rightarrow> real" where
  "MotorCtrl_GetVelocity w c = velocity (w c)"

text \<open>Modelled from the spec: \<^verbatim>\<open>Motor_VelCtrl_SetRef\<close> (interfaces/motor_if.h), which
  stores the velocity command of one actuator.\<close>

definition Motor_VelCtrl_SetRef :: "nat \<Rightarrow> real \<Rightarrow> motors \<Rightarrow> motors" where
  "Motor_VelCtrl_SetRef c v w = w(c := (w c)\<lparr>vel_ref := v\<rparr>)"

text \<open>Modelled from the spec: \<^verbatim>\<open>MotorCtrl_ResetAngle\<close> (interfaces/motor_if.h), which
  zeroes the position accumulator of one actuator.\<close>

definition MotorCtrl_ResetAngle :: "nat \<Rightarrow> motors \<Rightarrow> motors" where
  "MotorCtrl_ResetAngle c w = w(c := (w c)\<lparr>angle := 0\<rparr>)"

subsection \<open>Followers\<close>

text \<open>
  Both follower structures share the fields \<^verbatim>\<open>running\<close>, \<^verbatim>\<open>update_interval\<close>,
  \<^verbatim>\<open>s\<close>, \<^verbatim>\<open>v_max\<close>, \<^verbatim>\<open>a_max\<close>, \<^verbatim>\<open>j_max\<close> and \<^verbatim>\<open>now\<close>; the macro
  \<^verbatim>\<open>SCurveTraj_isFinished\<close> applies to either through these names. They form the common
  part of the two records.
\<close>

record 'p follower =
  running :: bool
  update_interval :: real
  s :: "'p SCurve_t"
  v_max :: real
  a_max :: real
  j_max :: real
  now :: real

record ('p, 'q) SCurveTrajFollower_Axis_t = "'p follower" +
  pd :: "'q PD_t"
  ctrl :: nat

record ('k) SCurveTrajFollower_AxisConfig_t =
  cfg_update_interval :: real
  error_pd :: 'k
  motor_vel_ctrl :: nat
  cfg_v_max :: real
  cfg_a_max :: real
  cfg_j_max :: real

text \<open>\<^verbatim>\<open>#define DPS2RPM(x) ((x) / 360.0f * 60.0f)\<close>\<close>

definition DPS2RPM :: "real \<Rightarrow> real" where
  "DPS2RPM deg_per_sec = deg_per_sec / 360 * 60"

text \<open>\<^verbatim>\<open>#define SCurveTraj_isFinished(f) ((f)->running && (f)->now >= (f)->s.total_time)\<close>\<close>

definition SCurveTraj_isFinished :: "('p, 'z) follower_scheme \<Rightarrow> bool" where
  "SCurveTraj_isFinished f = (running f \<and> now f \<ge> total_time (s f))"

section \<open>The single-axis follower\<close>

text \<open>
  \<^verbatim>\<open>
  void SCurveTraj_Axis_Init(SCurveTrajFollower_Axis_t* follower,
                            const SCurveTrajFollower_AxisConfig_t* config)
  {
      if (config->update_interval == 0)
          return;
      PD_Init(&follower->pd, &config->error_pd);
      follower->ctrl = config->motor_vel_ctrl;
      follower->update_interval = config->update_interval;
      follower->v_max           = config->v_max;
      follower->a_max           = config->a_max;
      follower->j_max           = config->j_max;
      follower->now     = 0.0f;
      follower->running = false;
  }
  \<close>
\<close>

definition SCurveTraj_Axis_Init ::
  "('p, 'q, 'k) ext \<Rightarrow> ('p, 'q) SCurveTrajFollower_Axis_t
     \<Rightarrow> 'k SCurveTrajFollower_AxisConfig_t \<Rightarrow> ('p, 'q) SCurveTrajFollower_Axis_t" where
  "SCurveTraj_Axis_Init E f config =
     (if cfg_update_interval config = 0 then f
      else f\<lparr>pd := PD_Init E (pd f) (error_pd config),
             ctrl := motor_vel_ctrl config,
             update_interval := cfg_update_interval config,
             v_max := cfg_v_max config,
             a_max := cfg_a_max config,
             j_max := cfg_j_max config,
             now := 0,
             running := False\<rparr>)"

text \<open>
  \<^verbatim>\<open>
  void SCurveTraj_Axis_Update(SCurveTrajFollower_Axis_t* follower)
  {
      if (!follower->running)
          return;
      const float now = follower->now + follower->update_interval;
      follower->now   = now;
      const float ff_velocity = SCurve_CalcV(&follower->s, now);
      const float target = SCurve_CalcX(&follower->s, now);
      follower->pd.ref = target;
      follower->pd.fdb = MotorCtrl_GetAngle(follower->ctrl);
      PD_Calculate(&follower->pd);
      const float velocity = ff_velocity + follower->pd.output;
      Motor_VelCtrl_SetRef(follower->ctrl, DPS2RPM(velocity));
  }
  \<close>
\<close>

fun SCurveTraj_Axis_Update ::
  "('p, 'q, 'k) ext \<Rightarrow> motors \<times> ('p, 'q) SCurveTrajFollower_Axis_t
     \<Rightarrow> motors \<times> ('p, 'q) SCurveTrajFollower_Axis_t" where
  "SCurveTraj_Axis_Update E (w, f) =
     (if \<not> running f then (w, f)
      else
        let now' = now f + update_interval f;
            f1 = f\<lparr>now := now'\<rparr>;
            ff_velocity = SCurve_CalcV E (s f1) now';
            target = SCurve_CalcX E (s f1) now';
            f2 = f1\<lparr>pd := (pd f1)\<lparr>ref := target\<rparr>\<rparr>;
            f3 = f2\<lparr>pd := (pd f2)\<lparr>fdb := MotorCtrl_GetAngle w (ctrl f2)\<rparr>\<rparr>;
            f4 = f3\<lparr>pd := PD_Calculate E (pd f3)\<rparr>;
            velocity = ff_velocity + output (pd f4)
        in (Motor_VelCtrl_SetRef (ctrl f4) (DPS2RPM velocity) w, f4))"

text \<open>
  \<^verbatim>\<open>
  void SCurveTraj_Axis_ResetAll(SCurveTrajFollower_Axis_t* follower)
  {
      follower->running = false;
      SCurve_Reset(&follower->s);
      memset(&follower->pd, 0, sizeof(follower->pd));
      Motor_VelCtrl_SetRef(follower->ctrl, 0);
      MotorCtrl_ResetAngle(follower->ctrl);
  }
  \<close>
\<close>

fun SCurveTraj_Axis_ResetAll ::
  "('p, 'q::zero, 'k) ext \<Rightarrow> motors \<times> ('p, 'q) SCurveTrajFollower_Axis_t
     \<Rightarrow> motors \<times> ('p, 'q) SCurveTrajFollower_Axis_t" where
  "SCurveTraj_Axis_ResetAll E (w, f) =
     (let f1 = f\<lparr>running := False\<rparr>;
          f2 = f1\<lparr>s := SCurve_Reset E (s f1)\<rparr>;
          f3 = f2\<lparr>pd := PD_memset0\<rparr>;
          w1 = Motor_VelCtrl_SetRef (ctrl f3) 0 w
      in (MotorCtrl_ResetAngle (ctrl f3) w1, f3))"

text \<open>
  \<^verbatim>\<open>
  void SCurveTraj_Axis_Stop(SCurveTrajFollower_Axis_t* follower)
  {
      follower->running = false;
      Motor_VelCtrl_SetRef(follower->ctrl, 0);
      memset(&follower->pd, 0, sizeof(follower->pd));
  }
  \<close>
\<close>

fun SCurveTraj_Axis_Stop ::
  "motors \<times> ('p, 'q::zero) SCurveTrajFollower_Axis_t
     \<Rightarrow> motors \<times> ('p, 'q) SCurveTrajFollower_Axis_t" where
  "SCurveTraj_Axis_Stop (w, f) =
     (let f1 = f\<lparr>running := False\<rparr>;
          w1 = Motor_VelCtrl_SetRef (ctrl f1) 0 w
      in (w1, f1\<lparr>pd := PD_memset0\<rparr>))"

text \<open>
  The helper \<^verbatim>\<open>axis_s_curve_init\<close> writes the curve behind its first argument; the model
  returns that curve with the result code, and the caller stores it where the source
  passes the pointer (\<^verbatim>\<open>&follower->s\<close> or the local \<^verbatim>\<open>temps\<close>).
\<close>

text \<open>
  \<^verbatim>\<open>
  static SCurve_Result_t axis_s_curve_init(SCurve_t* s,
                                           const SCurveTrajFollower_Axis_t* follower,
                                           const bool running, const float target)
  {
      return SCurve_Init(s,
                         MotorCtrl_GetAngle(follower->ctrl),
                         target,
                         MotorCtrl_GetVelocity(follower->ctrl),
                         running ? SCurve_CalcA(&follower->s, follower->now) : 0,
                         follower->v_max, follower->a_max, follower->j_max);
  }
  \<close>
\<close>

definition axis_s_curve_init ::
  "('p, 'q, 'k) ext \<Rightarrow> motors \<Rightarrow> ('p, 'q) SCurveTrajFollower_Axis_t \<Rightarrow> bool \<Rightarrow> real
     \<Rightarrow> 'p SCurve_t \<times> SCurve_Result_t" where
  "axis_s_curve_init E w f running0 target =
     SCurve_Init E
       (MotorCtrl_GetAngle w (ctrl f))
       target
       (MotorCtrl_GetVelocity w (ctrl f))
       (if running0 then SCurve_CalcA E (s f) (now f) else 0)
       (v_max f)
       (a_max f)
       (j_max f)"

text \<open>
  \<^verbatim>\<open>
  SCurve_Result_t SCurveTraj_Axis_SetTarget(SCurveTrajFollower_Axis_t* follower,
                                            const float target)
  {
      const bool running = follower->running;
      follower->running = false;
      const SCurve_Result_t r = axis_s_curve_init(&follower->s, follower, running, target);
      follower->now = 0;
      if (r == S_CURVE_SUCCESS)
          follower->running = true;
      else
          SCurveTraj_Axis_Stop(follower);
      return r;
  }
  \<close>
\<close>

fun SCurveTraj_Axis_SetTarget ::
  "('p, 'q::zero, 'k) ext \<Rightarrow> motors \<times> ('p, 'q) SCurveTrajFollower_Axis_t \<Rightarrow> real
     \<Rightarrow> (motors \<times> ('p, 'q) SCurveTrajFollower_Axis_t) \<times> SCurve_Result_t" where
  "SCurveTraj_Axis_SetTarget E (w, f) target =
     (let running0 = running f;
          f1 = f\<lparr>running := False\<rparr>;
          (c, r) = axis_s_curve_init E w f1 running0 target;
          f2 = f1\<lparr>s := c\<rparr>;
          f3 = f2\<lparr>now := 0\<rparr>
      in if r = S_CURVE_SUCCESS then ((w, f3\<lparr>running := True\<rparr>), r)
         else (SCurveTraj_Axis_Stop (w, f3), r))"

text \<open>
  \<^verbatim>\<open>
  float SCurveTraj_Axis_EstimateDuration(const SCurveTrajFollower_Axis_t* follower,
                                         const float target)
  {
      SCurve_t temps;
      const SCurve_Result_t r = axis_s_curve_init(&temps, follower, follower->running, target);
      if (r != S_CURVE_SUCCESS)
          return -1.0f;
      return temps.total_time;
  }
  \<close>
\<close>

definition SCurveTraj_Axis_EstimateDuration ::
  "('p, 'q, 'k) ext \<Rightarrow> motors \<Rightarrow> ('p, 'q) SCurveTrajFollower_Axis_t \<Rightarrow> real \<Rightarrow> real" where
  "SCurveTraj_Axis_EstimateDuration E w f target =
     (let (temps, r) = axis_s_curve_init E w f (running f) target
      in if r \<noteq> S_CURVE_SUCCESS then - 1 else total_time temps)"


section \<open>The group follower\<close>

record 'q SCurveTrajFollower_GroupItem_t =
  item_ctrl :: nat
  item_pd :: "'q PD_t"

record 'k SCurveTrajFollower_GroupItem_Config_t =
  ic_ctrl :: nat
  ic_error_pd :: 'k

text \<open>
  \<^verbatim>\<open>items\<close> is a pointer to an array supplied by the caller and \<^verbatim>\<open>item_count\<close> the
  number of its elements that the follower uses. The array is a list, the count stays
  a field of its own, and the loops run over the indices below \<^verbatim>\<open>item_count\<close> as in
  the source. An index beyond the array is undefined behaviour in C; the theorems
  about items assume \<open>item_count \<le> length items\<close>.
\<close>

record ('p, 'q) SCurveTrajFollower_Group_t = "'p follower" +
  items :: "'q SCurveTrajFollower_GroupItem_t list"
  item_count :: nat

record ('q, 'k) SCurveTrajFollower_GroupConfig_t =
  gcfg_update_interval :: real
  item_configs :: "'k SCurveTrajFollower_GroupItem_Config_t list"
  cfg_items :: "'q SCurveTrajFollower_GroupItem_t list"
  cfg_item_count :: nat
  gcfg_v_max :: real
  gcfg_a_max :: real
  gcfg_j_max :: real

text \<open>
  \<^verbatim>\<open>
  void SCurveTraj_Group_Init(SCurveTrajFollower_Group_t* follower,
                             const SCurveTrajFollower_GroupConfig_t* config)
  {
      if (config->update_interval == 0)
          return;
      follower->items      = config->items;
      follower->item_count = config->item_count;
      for (size_t i = 0; i < follower->item_count; i++)
      {
          follower->items[i].ctrl = config->item_configs[i].ctrl;
          PD_Init(&follower->items[i].pd, &config->item_configs[i].error_pd);
      }
      follower->update_interval = config->update_interval;
      follower->v_max           = config->v_max;
      follower->a_max           = config->a_max;
      follower->j_max           = config->j_max;
      follower->now     = 0.0f;
      follower->running = false;
  }
  \<close>
\<close>

text \<open>One iteration of its loop, and the function.\<close>

definition group_init_item ::
  "('p, 'q, 'k) ext \<Rightarrow> 'k SCurveTrajFollower_GroupItem_Config_t list \<Rightarrow> nat
     \<Rightarrow> 'q SCurveTrajFollower_GroupItem_t list \<Rightarrow> 'q SCurveTrajFollower_GroupItem_t list" where
  "group_init_item E cfgs i its =
     (let its1 = its[i := (its ! i)\<lparr>item_ctrl := ic_ctrl (cfgs ! i)\<rparr>]
      in its1[i := (its1 ! i)\<lparr>item_pd := PD_Init E (item_pd (its1 ! i)) (ic_error_pd (cfgs ! i))\<rparr>])"

definition SCurveTraj_Group_Init ::
  "('p, 'q, 'k) ext \<Rightarrow> ('p, 'q) SCurveTrajFollower_Group_t
     \<Rightarrow> ('q, 'k) SCurveTrajFollower_GroupConfig_t \<Rightarrow> ('p, 'q) SCurveTrajFollower_Group_t" where
  "SCurveTraj_Group_Init E f config =
     (if gcfg_update_interval config = 0 then f
      else
        let f1 = f\<lparr>items := cfg_items config\<rparr>;
            f2 = f1\<lparr>item_count := cfg_item_count config\<rparr>;
            f3 = f2\<lparr>items := fold (group_init_item E (item_configs config))
                                  [0..<item_count f2] (items f2)\<rparr>
        in f3\<lparr>update_interval := gcfg_update_interval config,
               v_max := gcfg_v_max config,
               a_max := gcfg_a_max config,
               j_max := gcfg_j_max config,
               now := 0,
               running := False\<rparr>)"

text \<open>
  \<^verbatim>\<open>
  void SCurveTraj_Group_Update(SCurveTrajFollower_Group_t* follower)
  {
      if (!follower->running)
          return;
      const float now = follower->now + follower->update_interval;
      follower->now   = now;
      const float ff_velocity = SCurve_CalcV(&follower->s, now);
      const float target = SCurve_CalcX(&follower->s, now);
      for (size_t i = 0; i < follower->item_count; i++)
      {
          follower->items[i].pd.ref = target;
          follower->items[i].pd.fdb = MotorCtrl_GetAngle(follower->items[i].ctrl);
          PD_Calculate(&follower->items[i].pd);
          const float velocity = ff_velocity + follower->items[i].pd.output;
          Motor_VelCtrl_SetRef(follower->items[i].ctrl, DPS2RPM(velocity));
      }
  }
  \<close>
\<close>

text \<open>One iteration of its loop, on the motors and the array, and the function.\<close>

fun group_update_item ::
  "('p, 'q, 'k) ext \<Rightarrow> real \<Rightarrow> real \<Rightarrow> nat
     \<Rightarrow> motors \<times> 'q SCurveTrajFollower_GroupItem_t list
     \<Rightarrow> motors \<times> 'q SCurveTrajFollower_GroupItem_t list" where
  "group_update_item E ff_velocity target i (w, its) =
     (let its1 = its[i := (its ! i)\<lparr>item_pd := (item_pd (its ! i))\<lparr>ref := target\<rparr>\<rparr>];
          its2 = its1[i := (its1 ! i)\<lparr>item_pd := (item_pd (its1 ! i))
                    \<lparr>fdb := MotorCtrl_GetAngle w (item_ctrl (its1 ! i))\<rparr>\<rparr>];
          its3 = its2[i := (its2 ! i)\<lparr>item_pd := PD_Calculate E (item_pd (its2 ! i))\<rparr>];
          velocity = ff_velocity + output (item_pd (its3 ! i))
      in (Motor_VelCtrl_SetRef (item_ctrl (its3 ! i)) (DPS2RPM velocity) w, its3))"

fun SCurveTraj_Group_Update ::
  "('p, 'q, 'k) ext \<Rightarrow> motors \<times> ('p, 'q) SCurveTrajFollower_Group_t
     \<Rightarrow> motors \<times> ('p, 'q) SCurveTrajFollower_Group_t" where
  "SCurveTraj_Group_Update E (w, f) =
     (if \<not> running f then (w, f)
      else
        let now' = now f + update_interval f;
            f1 = f\<lparr>now := now'\<rparr>;
            ff_velocity = SCurve_CalcV E (s f1) now';
            target = SCurve_CalcX E (s f1) now';
            (w', its') = fold (group_update_item E ff_velocity target)
                           [0..<item_count f1] (w, items f1)
        in (w', f1\<lparr>items := its'\<rparr>))"

text \<open>
  \<^verbatim>\<open>
  void SCurveTraj_Group_ResetAll(SCurveTrajFollower_Group_t* follower)
  {
      follower->running = false;
      SCurve_Reset(&follower->s);
      for (size_t i = 0; i < follower->item_count; i++)
      {
          memset(&follower->items[i].pd, 0, sizeof(follower->items[i].pd));
          Motor_VelCtrl_SetRef(follower->items[i].ctrl, 0);
          MotorCtrl_ResetAngle(follower->items[i].ctrl);
      }
  }
  \<close>
\<close>

text \<open>One iteration of its loop, and the function.\<close>

fun group_reset_item ::
  "nat \<Rightarrow> motors \<times> ('q::zero) SCurveTrajFollower_GroupItem_t list
     \<Rightarrow> motors \<times> 'q SCurveTrajFollower_GroupItem_t list" where
  "group_reset_item i (w, its) =
     (let its1 = its[i := (its ! i)\<lparr>item_pd := PD_memset0\<rparr>];
          w1 = Motor_VelCtrl_SetRef (item_ctrl (its1 ! i)) 0 w
      in (MotorCtrl_ResetAngle (item_ctrl (its1 ! i)) w1, its1))"

fun SCurveTraj_Group_ResetAll ::
  "('p, 'q::zero, 'k) ext \<Rightarrow> motors \<times> ('p, 'q) SCurveTrajFollower_Group_t
     \<Rightarrow> motors \<times> ('p, 'q) SCurveTrajFollower_Group_t" where
  "SCurveTraj_Group_ResetAll E (w, f) =
     (let f1 = f\<lparr>running := False\<rparr>;
          f2 = f1\<lparr>s := SCurve_Reset E (s f1)\<rparr>;
          (w', its') = fold group_reset_item [0..<item_count f2] (w, items f2)
      in (w', f2\<lparr>items := its'\<rparr>))"

text \<open>
  \<^verbatim>\<open>
  void SCurveTraj_Group_Stop(SCurveTrajFollower_Group_t* follower)
  {
      follower->running = false;
      for (size_t i = 0; i < follower->item_count; i++)
      {
          Motor_VelCtrl_SetRef(follower->items[i].ctrl, 0);
          memset(&follower->items[i].pd, 0, sizeof(follower->items[i].pd));
      }
  }
  \<close>
\<close>

text \<open>One iteration of its loop, and the function.\<close>

fun group_stop_item ::
  "nat \<Rightarrow> motors \<times> ('q::zero) SCurveTrajFollower_GroupItem_t list
     \<Rightarrow> motors \<times> 'q SCurveTrajFollower_GroupItem_t list" where
  "group_stop_item i (w, its) =
     (let w1 = Motor_VelCtrl_SetRef (item_ctrl (its ! i)) 0 w
      in (w1, its[i := (its ! i)\<lparr>item_pd := PD_memset0\<rparr>]))"

fun SCurveTraj_Group_Stop ::
  "motors \<times> ('p, 'q::zero) SCurveTrajFollower_Group_t
     \<Rightarrow> motors \<times> ('p, 'q) SCurveTrajFollower_Group_t" where
  "SCurveTraj_Group_Stop (w, f) =
     (let f1 = f\<lparr>running := False\<rparr>;
          (w', its') = fold group_stop_item [0..<item_count f1] (w, items f1)
      in (w', f1\<lparr>items := its'\<rparr>))"

text \<open>
  The quotient \<^verbatim>\<open>a / b\<close> of two floats as IEC 60559 defines it, where \<^verbatim>\<open>b\<close> is the
  conversion of an unsigned count and so never a negative zero: the quotient of the
  numbers when \<^verbatim>\<open>b\<close> is not zero, NaN for \<^verbatim>\<open>0 / 0\<close>, and the infinity with the sign
  of \<^verbatim>\<open>a\<close> otherwise. The operation always returns a value; nothing in the program
  tests the divisor.
\<close>

definition fdiv :: "real \<Rightarrow> real \<Rightarrow> cfloat" where
  "fdiv a b =
     (if b \<noteq> 0 then Finite (a / b)
      else if a = 0 then NaN
      else if 0 < a then PosInf
      else NegInf)"

text \<open>
  A call of \<^verbatim>\<open>SCurve_Init\<close> whose start position and start velocity come from a
  division: \<^verbatim>\<open>SCurve_Init\<close> on the numbers when both are finite, and its behaviour on
  non-finite arguments otherwise.
\<close>

definition SCurve_Init_float ::
  "('p, 'q, 'k) ext \<Rightarrow> cfloat \<Rightarrow> real \<Rightarrow> cfloat \<Rightarrow> real \<Rightarrow> real \<Rightarrow> real \<Rightarrow> real
     \<Rightarrow> 'p SCurve_t \<times> SCurve_Result_t" where
  "SCurve_Init_float E xs xe vs as vm am jm =
     (case (xs, vs) of
        (Finite x, Finite v) \<Rightarrow> SCurve_Init E x xe v as vm am jm
      | _ \<Rightarrow> SCurve_Init_nonfinite E xs xe vs as vm am jm)"

text \<open>
  \<^verbatim>\<open>
  static SCurve_Result_t group_s_curve_init(SCurve_t* s,
                                            const SCurveTrajFollower_Group_t* follower,
                                            const bool running, const float target)
  {
      float start_position = 0, start_velocity = 0;
      for (size_t i = 0; i < follower->item_count; i++)
      {
          start_position += MotorCtrl_GetAngle(follower->items[i].ctrl);
          start_velocity += MotorCtrl_GetVelocity(follower->items[i].ctrl);
      }
      start_position /= (float) follower->item_count;
      start_velocity /= (float) follower->item_count;
      return SCurve_Init(s,
                         start_position,
                         target,
                         start_velocity,
                         running ? SCurve_CalcA(&follower->s, follower->now) : 0,
                         follower->v_max, follower->a_max, follower->j_max);
  }
  \<close>
\<close>

text \<open>One iteration of its summing loop, and the function.\<close>

fun group_sum_item ::
  "motors \<Rightarrow> 'q SCurveTrajFollower_GroupItem_t list \<Rightarrow> nat \<Rightarrow> real \<times> real \<Rightarrow> real \<times> real" where
  "group_sum_item w its i (start_position, start_velocity) =
     (start_position + MotorCtrl_GetAngle w (item_ctrl (its ! i)),
      start_velocity + MotorCtrl_GetVelocity w (item_ctrl (its ! i)))"

definition group_s_curve_init ::
  "('p, 'q, 'k) ext \<Rightarrow> motors \<Rightarrow> ('p, 'q) SCurveTrajFollower_Group_t \<Rightarrow> bool \<Rightarrow> real
     \<Rightarrow> 'p SCurve_t \<times> SCurve_Result_t" where
  "group_s_curve_init E w f running0 target =
     (let (sum_position, sum_velocity) =
            fold (group_sum_item w (items f)) [0..<item_count f] (0, 0);
          start_position = fdiv sum_position (real (item_count f));
          start_velocity = fdiv sum_velocity (real (item_count f))
      in SCurve_Init_float E
           start_position
           target
           start_velocity
           (if running0 then SCurve_CalcA E (s f) (now f) else 0)
           (v_max f)
           (a_max f)
           (j_max f))"

text \<open>
  \<^verbatim>\<open>
  SCurve_Result_t SCurveTraj_Group_SetTarget(SCurveTrajFollower_Group_t* follower,
                                             const float target)
  {
      const bool running = follower->running;
      follower->running       = false;
      const SCurve_Result_t r = group_s_curve_init(&follower->s, follower, running, target);
      follower->now = 0;
      if (r == S_CURVE_SUCCESS)
          follower->running = true;
      else
          SCurveTraj_Group_Stop(follower);
      return r;
  }
  \<close>
\<close>

fun SCurveTraj_Group_SetTarget ::
  "('p, 'q::zero, 'k) ext \<Rightarrow> motors \<times> ('p, 'q) SCurveTrajFollower_Group_t \<Rightarrow> real
     \<Rightarrow> (motors \<times> ('p, 'q) SCurveTrajFollower_Group_t) \<times> SCurve_Result_t" where
  "SCurveTraj_Group_SetTarget E (w, f) target =
     (let running0 = running f;
          f1 = f\<lparr>running := False\<rparr>;
          (c, r) = group_s_curve_init E w f1 running0 target;
          f2 = f1\<lparr>s := c\<rparr>;
          f3 = f2\<lparr>now := 0\<rparr>
      in if r = S_CURVE_SUCCESS then ((w, f3\<lparr>running := True\<rparr>), r)
         else (SCurveTraj_Group_Stop (w, f3), r))"

text \<open>
  \<^verbatim>\<open>
  float SCurveTraj_Group_EstimateDuration(const SCurveTrajFollower_Group_t* follower,
                                          const float target)
  {
      SCurve_t temps;
      const SCurve_Result_t r = group_s_curve_init(&temps, follower, follower->running, target);
      if (r != S_CURVE_SUCCESS)
          return -1.0f;
      return temps.total_time;
  }
  \<close>
\<close>

definition SCurveTraj_Group_EstimateDuration ::
  "('p, 'q, 'k) ext \<Rightarrow> motors \<Rightarrow> ('p, 'q) SCurveTrajFollower_Group_t \<Rightarrow> real
     \<Rightarrow> real" where
  "SCurveTraj_Group_EstimateDuration E w f target =
     (let (temps, r) = group_s_curve_init E w f (running f) target
      in if r \<noteq> S_CURVE_SUCCESS then - 1 else total_time temps)"


section \<open>Calls and validity of the arrays\<close>

text \<open>
  The entry points of a follower as one type of calls, and the state (motors and
  follower) in which a call returns. \<^verbatim>\<open>EstimateDuration\<close> takes the follower by
  pointer to const and writes only its local curve.
\<close>

datatype 'k axis_op =
    Axis_Init "'k SCurveTrajFollower_AxisConfig_t"
  | Axis_Update
  | Axis_ResetAll
  | Axis_Stop
  | Axis_SetTarget real
  | Axis_EstimateDuration real

fun axis_do ::
  "('p, 'q::zero, 'k) ext \<Rightarrow> 'k axis_op \<Rightarrow> motors \<times> ('p, 'q) SCurveTrajFollower_Axis_t
     \<Rightarrow> motors \<times> ('p, 'q) SCurveTrajFollower_Axis_t" where
  "axis_do E (Axis_Init config) (w, f) = (w, SCurveTraj_Axis_Init E f config)"
| "axis_do E Axis_Update (w, f) = SCurveTraj_Axis_Update E (w, f)"
| "axis_do E Axis_ResetAll (w, f) = SCurveTraj_Axis_ResetAll E (w, f)"
| "axis_do E Axis_Stop (w, f) = SCurveTraj_Axis_Stop (w, f)"
| "axis_do E (Axis_SetTarget target) (w, f) = fst (SCurveTraj_Axis_SetTarget E (w, f) target)"
| "axis_do E (Axis_EstimateDuration target) (w, f) = (w, f)"

datatype ('q, 'k) group_op =
    Group_Init "('q, 'k) SCurveTrajFollower_GroupConfig_t"
  | Group_Update
  | Group_ResetAll
  | Group_Stop
  | Group_SetTarget real
  | Group_EstimateDuration real

fun group_do ::
  "('p, 'q::zero, 'k) ext \<Rightarrow> ('q, 'k) group_op \<Rightarrow> motors \<times> ('p, 'q) SCurveTrajFollower_Group_t
     \<Rightarrow> motors \<times> ('p, 'q) SCurveTrajFollower_Group_t" where
  "group_do E (Group_Init config) (w, f) = (w, SCurveTraj_Group_Init E f config)"
| "group_do E Group_Update (w, f) = SCurveTraj_Group_Update E (w, f)"
| "group_do E Group_ResetAll (w, f) = SCurveTraj_Group_ResetAll E (w, f)"
| "group_do E Group_Stop (w, f) = SCurveTraj_Group_Stop (w, f)"
| "group_do E (Group_SetTarget target) (w, f) = fst (SCurveTraj_Group_SetTarget E (w, f) target)"
| "group_do E (Group_EstimateDuration target) (w, f) = (w, f)"

text \<open>The array behind \<^verbatim>\<open>items\<close> holds at least \<^verbatim>\<open>item_count\<close> elements.\<close>

definition group_items_valid :: "('p, 'q) SCurveTrajFollower_Group_t \<Rightarrow> bool" where
  "group_items_valid f = (item_count f \<le> length (items f))"

text \<open>Both arrays of a group configuration hold at least \<^verbatim>\<open>item_count\<close> elements.\<close>

definition group_config_valid :: "('q, 'k) SCurveTrajFollower_GroupConfig_t \<Rightarrow> bool" where
  "group_config_valid config =
     (cfg_item_count config \<le> length (cfg_items config) \<and>
      cfg_item_count config \<le> length (item_configs config))"

section \<open>A concrete instance\<close>

text \<open>
  An implementation of the external modules on which the theorems are instantiated:
  the curve records the start state it was synthesized from, moves with constant
  acceleration, and cannot be synthesized unless all three limits are positive (the
  limits alone decide, also for a start state that is not finite); the corrector is
  proportional with the gain kept in its opaque part.
\<close>

definition ex_ext :: "(real \<times> real \<times> real, real, real) ext" where
  "ex_ext =
     \<lparr>SCurve_Init = (\<lambda>xs xe vs as vm am jm.
          (\<lparr>total_time = \<bar>xe - xs\<bar>, profile = (xs, vs, as)\<rparr>,
           if 0 < vm \<and> 0 < am \<and> 0 < jm then S_CURVE_SUCCESS else S_CURVE_FAILED)),
      SCurve_Init_nonfinite = (\<lambda>xs xe vs as vm am jm.
          (\<lparr>total_time = 0, profile = (0, 0, as)\<rparr>,
           if 0 < vm \<and> 0 < am \<and> 0 < jm then S_CURVE_SUCCESS else S_CURVE_FAILED)),
      SCurve_CalcX = (\<lambda>c t. case profile c of (x, v, a) \<Rightarrow> x + v * t),
      SCurve_CalcV = (\<lambda>c t. case profile c of (x, v, a) \<Rightarrow> v + a * t),
      SCurve_CalcA = (\<lambda>c t. case profile c of (x, v, a) \<Rightarrow> a),
      SCurve_Reset = (\<lambda>c. \<lparr>total_time = 0, profile = (0, 0, 0)\<rparr>),
      PD_Init = (\<lambda>p k. \<lparr>ref = 0, fdb = 0, output = 0, pd_more = k\<rparr>),
      PD_Calculate = (\<lambda>p. p\<lparr>output := pd_more p * (ref p - fdb p)\<rparr>)\<rparr>"

definition ex_motors :: motors where
  "ex_motors = (\<lambda>c. if c = 1 then \<lparr>angle = 10, velocity = 2, vel_ref = 7\<rparr>
                     else if c = 2 then \<lparr>angle = 14, velocity = 4, vel_ref = 7\<rparr>
                     else \<lparr>angle = 0, velocity = 0, vel_ref = 0\<rparr>)"

definition ex_axis :: "(real \<times> real \<times> real, real) SCurveTrajFollower_Axis_t" where
  "ex_axis =
     \<lparr>running = True, update_interval = 1,
      s = \<lparr>total_time = 5, profile = (0, 1, 3)\<rparr>,
      v_max = 180, a_max = 360, j_max = 720, now = 2,
      pd = \<lparr>ref = 0, fdb = 0, output = 0, pd_more = 2\<rparr>, ctrl = 1\<rparr>"

definition ex_group :: "(real \<times> real \<times> real, real) SCurveTrajFollower_Group_t" where
  "ex_group =
     \<lparr>running = True, update_interval = 1,
      s = \<lparr>total_time = 5, profile = (0, 1, 3)\<rparr>,
      v_max = 180, a_max = 360, j_max = 720, now = 2,
      items = [\<lparr>item_ctrl = 1, item_pd = \<lparr>ref = 0, fdb = 0, output = 0, pd_more = 2\<rparr>\<rparr>,
               \<lparr>item_ctrl = 2, item_pd = \<lparr>ref = 0, fdb = 0, output = 0, pd_more = 2\<rparr>\<rparr>],
      item_count = 2\<rparr>"

definition ex_axis_config :: "real SCurveTrajFollower_AxisConfig_t" where
  "ex_axis_config =
     \<lparr>cfg_update_interval = 1 / 2, error_pd = 5, motor_vel_ctrl = 2,
      cfg_v_max = 90, cfg_a_max = 180, cfg_j_max = 360\<rparr>"

definition ex_group_config :: "(real, real) SCurveTrajFollower_GroupConfig_t" where
  "ex_group_config =
     \<lparr>gcfg_update_interval = 1 / 2,
      item_configs = [\<lparr>ic_ctrl = 2, ic_error_pd = 5\<rparr>, \<lparr>ic_ctrl = 1, ic_error_pd = 6\<rparr>],
      cfg_items = [\<lparr>item_ctrl = 8, item_pd = \<lparr>ref = 1, fdb = 1, output = 1, pd_more = 1\<rparr>\<rparr>,
                   \<lparr>item_ctrl = 9, item_pd = \<lparr>ref = 1, fdb = 1, output = 1, pd_more = 1\<rparr>\<rparr>,
                   \<lparr>item_ctrl = 7, item_pd = \<lparr>ref = 1, fdb = 1, output = 1, pd_more = 1\<rparr>\<rparr>],
      cfg_item_count = 2,
      gcfg_v_max = 90, gcfg_a_max = 180, gcfg_j_max = 360\<rparr>"

section \<open>The update tick of the single-axis follower\<close>

text \<open>
  C8. \<^verbatim>\<open>SCurveTraj_Axis_Update\<close> returns without any effect when the follower is not
  running. When it is running, the elapsed time grows by exactly one update interval,
  the feedforward velocity and the target position are the curve's values at the new
  elapsed time, the corrector is computed from that target and the measured angle, and
  the motor is commanded with feedforward plus correction, converted from degrees per
  second by \<open>x / 360 * 60\<close>; no other field and no other motor changes.
\<close>

theorem axis_update_tick:
  "(\<not> running f \<longrightarrow> SCurveTraj_Axis_Update E (w, f) = (w, f)) \<and>
   (running f \<longrightarrow>
      SCurveTraj_Axis_Update E (w, f) =
        (let t = now f + update_interval f;
             target = SCurve_CalcX E (s f) t;
             ff_velocity = SCurve_CalcV E (s f) t;
             pd' = PD_Calculate E ((pd f)\<lparr>ref := target, fdb := angle (w (ctrl f))\<rparr>)
         in (w(ctrl f := (w (ctrl f))\<lparr>vel_ref := (ff_velocity + output pd') / 360 * 60\<rparr>),
             f\<lparr>now := t, pd := pd'\<rparr>)))"
  unfolding DPS2RPM_def [symmetric]
  by (simp add: Let_def Motor_VelCtrl_SetRef_def MotorCtrl_GetAngle_def)

theorem axis_update_tick_witness:
  "\<not> running (ex_axis\<lparr>running := False\<rparr>) \<and>
   SCurveTraj_Axis_Update ex_ext (ex_motors, ex_axis\<lparr>running := False\<rparr>)
     = (ex_motors, ex_axis\<lparr>running := False\<rparr>) \<and>
   running ex_axis \<and>
   now (snd (SCurveTraj_Axis_Update ex_ext (ex_motors, ex_axis))) = 3 \<and>
   vel_ref (fst (SCurveTraj_Axis_Update ex_ext (ex_motors, ex_axis)) 1) = - 2 / 3"
proof -
  have r: "running ex_axis" by (simp add: ex_axis_def)
  have n: "\<not> running (ex_axis\<lparr>running := False\<rparr>)" by simp
  from axis_update_tick [of "ex_axis\<lparr>running := False\<rparr>" ex_ext ex_motors] n
  have a: "SCurveTraj_Axis_Update ex_ext (ex_motors, ex_axis\<lparr>running := False\<rparr>)
     = (ex_motors, ex_axis\<lparr>running := False\<rparr>)" by blast
  from axis_update_tick [of ex_axis ex_ext ex_motors] r
  have b: "SCurveTraj_Axis_Update ex_ext (ex_motors, ex_axis) =
        (let t = now ex_axis + update_interval ex_axis;
             target = SCurve_CalcX ex_ext (s ex_axis) t;
             ff_velocity = SCurve_CalcV ex_ext (s ex_axis) t;
             pd' = PD_Calculate ex_ext
                     ((pd ex_axis)\<lparr>ref := target, fdb := angle (ex_motors (ctrl ex_axis))\<rparr>)
         in (ex_motors(ctrl ex_axis :=
               (ex_motors (ctrl ex_axis))\<lparr>vel_ref := (ff_velocity + output pd') / 360 * 60\<rparr>),
             ex_axis\<lparr>now := t, pd := pd'\<rparr>))" by blast
  have c: "now (snd (SCurveTraj_Axis_Update ex_ext (ex_motors, ex_axis))) = 3"
    unfolding b by (simp add: Let_def ex_axis_def)
  have d: "vel_ref (fst (SCurveTraj_Axis_Update ex_ext (ex_motors, ex_axis)) 1) = - 2 / 3"
    unfolding b by (simp add: Let_def ex_axis_def ex_ext_def ex_motors_def)
  from r n a c d show ?thesis by blast
qed

section \<open>Loops and unfoldings\<close>

text \<open>The last iteration of a counting loop.\<close>

lemma fold_upt_Suc: "fold f [0..<Suc n] x = f n (fold f [0..<n] x)"
  by simp

lemma group_stop_loop:
  "n \<le> length its \<Longrightarrow> fold group_stop_item [0..<n] (w, its) = (w', its') \<Longrightarrow>
   length its' = length its \<and>
   (\<forall>i<length its. its' ! i = (if i < n then (its ! i)\<lparr>item_pd := PD_memset0\<rparr> else its ! i)) \<and>
   (\<forall>c. w' c = (if \<exists>i<n. item_ctrl (its ! i) = c then (w c)\<lparr>vel_ref := 0\<rparr> else w c))"
proof (induction n arbitrary: w' its')
  case 0
  then show ?case by simp
next
  case (Suc n)
  obtain w1 its1 where prev: "fold group_stop_item [0..<n] (w, its) = (w1, its1)"
    by (cases "fold group_stop_item [0..<n] (w, its)")
  from Suc.prems(1) have n: "n < length its" by simp
  with Suc.IH [OF _ prev] have
    len: "length its1 = length its" and
    nth: "\<And>i. i < length its \<Longrightarrow> its1 ! i = (if i < n then (its ! i)\<lparr>item_pd := PD_memset0\<rparr> else its ! i)" and
    mot: "\<And>c. w1 c = (if \<exists>i<n. item_ctrl (its ! i) = c then (w c)\<lparr>vel_ref := 0\<rparr> else w c)"
    by simp_all
  from Suc.prems(2) prev have step: "group_stop_item n (w1, its1) = (w', its')"
    by (simp only: fold_upt_Suc)
  then have w': "w' = Motor_VelCtrl_SetRef (item_ctrl (its1 ! n)) 0 w1"
    and its': "its' = its1[n := (its1 ! n)\<lparr>item_pd := PD_memset0\<rparr>]"
    by (simp_all add: Let_def)
  have n1: "its1 ! n = its ! n" using nth [OF n] by simp
  show ?case
  proof (intro conjI allI impI)
    show "length its' = length its" using its' len by simp
  next
    fix i assume "i < length its"
    then show "its' ! i = (if i < Suc n then (its ! i)\<lparr>item_pd := PD_memset0\<rparr> else its ! i)"
      using its' len n nth [of i] n1 by (cases "i = n") (auto simp: less_Suc_eq)
  next
    fix c
    show "w' c = (if \<exists>i<Suc n. item_ctrl (its ! i) = c then (w c)\<lparr>vel_ref := 0\<rparr> else w c)"
      using w' n1 mot [of c] by (auto simp: Motor_VelCtrl_SetRef_def less_Suc_eq)
  qed
qed

lemma axis_s_curve_init_args:
  "axis_s_curve_init E w f r target =
     SCurve_Init E (angle (w (ctrl f))) target (velocity (w (ctrl f)))
       (if r then SCurve_CalcA E (s f) (now f) else 0) (v_max f) (a_max f) (j_max f)"
  by (simp add: axis_s_curve_init_def MotorCtrl_GetAngle_def MotorCtrl_GetVelocity_def)

lemma axis_s_curve_init_running [simp]:
  "axis_s_curve_init E w (f\<lparr>running := b\<rparr>) r target = axis_s_curve_init E w f r target"
  by (simp add: axis_s_curve_init_def)

lemma axis_set_target_unfold:
  "SCurveTraj_Axis_SetTarget E (w, f) target =
     (let c = fst (axis_s_curve_init E w f (running f) target);
          r = snd (axis_s_curve_init E w f (running f) target)
      in if r = S_CURVE_SUCCESS then ((w, f\<lparr>running := True, s := c, now := 0\<rparr>), r)
         else ((w(ctrl f := (w (ctrl f))\<lparr>vel_ref := 0\<rparr>),
                f\<lparr>running := False, s := c, now := 0, pd := PD_memset0\<rparr>), r))"
  by (simp add: Let_def split_def Motor_VelCtrl_SetRef_def)

lemma group_stop_result:
  assumes "group_items_valid f" and "SCurveTraj_Group_Stop (w, f) = (w', f')"
  shows "f' = f\<lparr>running := False, items := items f'\<rparr>"
    and "length (items f') = length (items f)"
    and "\<And>i. i < length (items f) \<Longrightarrow>
           items f' ! i = (if i < item_count f then (items f ! i)\<lparr>item_pd := PD_memset0\<rparr>
                           else items f ! i)"
    and "\<And>c. w' c = (if \<exists>i<item_count f. item_ctrl (items f ! i) = c
                      then (w c)\<lparr>vel_ref := 0\<rparr> else w c)"
proof -
  obtain w1 its1 where loop: "fold group_stop_item [0..<item_count f] (w, items f) = (w1, its1)"
    by (cases "fold group_stop_item [0..<item_count f] (w, items f)")
  from assms(2) loop have w': "w' = w1" and f': "f' = f\<lparr>running := False, items := its1\<rparr>"
    by (simp_all add: Let_def)
  from assms(1) have n: "item_count f \<le> length (items f)"
    by (simp add: group_items_valid_def)
  note inv = group_stop_loop [OF n loop]
  show "f' = f\<lparr>running := False, items := items f'\<rparr>" using f' by simp
  show "length (items f') = length (items f)" using f' inv by simp
  show "\<And>i. i < length (items f) \<Longrightarrow>
           items f' ! i = (if i < item_count f then (items f ! i)\<lparr>item_pd := PD_memset0\<rparr>
                           else items f ! i)" using f' inv by simp
  show "\<And>c. w' c = (if \<exists>i<item_count f. item_ctrl (items f ! i) = c
                      then (w c)\<lparr>vel_ref := 0\<rparr> else w c)" using w' inv by simp
qed

lemma SCurve_Init_float_finite [simp]:
  "SCurve_Init_float E (Finite x) xe (Finite v) as vm am jm = SCurve_Init E x xe v as vm am jm"
  by (simp add: SCurve_Init_float_def)

lemma SCurve_Init_float_NaN [simp]:
  "SCurve_Init_float E NaN xe vs as vm am jm = SCurve_Init_nonfinite E NaN xe vs as vm am jm"
  by (simp add: SCurve_Init_float_def)

lemma group_s_curve_init_running [simp]:
  "group_s_curve_init E w (f\<lparr>running := b\<rparr>) r target = group_s_curve_init E w f r target"
  by (simp add: group_s_curve_init_def split: prod.splits)

lemma group_set_target_unfold:
  "SCurveTraj_Group_SetTarget E (w, f) target =
     (let c = fst (group_s_curve_init E w f (running f) target);
          r = snd (group_s_curve_init E w f (running f) target)
      in if r = S_CURVE_SUCCESS then ((w, f\<lparr>running := True, s := c, now := 0\<rparr>), r)
         else (SCurveTraj_Group_Stop (w, f\<lparr>running := False, s := c, now := 0\<rparr>), r))"
  by (simp add: Let_def split_def del: SCurveTraj_Group_Stop.simps)

section \<open>Retargeting the single-axis follower\<close>

text \<open>
  C1. \<^verbatim>\<open>SCurveTraj_Axis_SetTarget\<close> installs the curve, and returns the result code,
  that \<^verbatim>\<open>SCurve_Init\<close> yields for the start position and the start velocity measured
  on the follower's motor at the call, the given target and the follower's limits. The
  start acceleration is the acceleration of the previous curve at the previous elapsed
  time when the follower was running at the call, and 0 when it was not.
\<close>

theorem axis_set_target_start_state:
  "(running f \<longrightarrow>
      s (snd (fst (SCurveTraj_Axis_SetTarget E (w, f) target))) =
        fst (SCurve_Init E (angle (w (ctrl f))) target (velocity (w (ctrl f)))
               (SCurve_CalcA E (s f) (now f)) (v_max f) (a_max f) (j_max f)) \<and>
      snd (SCurveTraj_Axis_SetTarget E (w, f) target) =
        snd (SCurve_Init E (angle (w (ctrl f))) target (velocity (w (ctrl f)))
               (SCurve_CalcA E (s f) (now f)) (v_max f) (a_max f) (j_max f))) \<and>
   (\<not> running f \<longrightarrow>
      s (snd (fst (SCurveTraj_Axis_SetTarget E (w, f) target))) =
        fst (SCurve_Init E (angle (w (ctrl f))) target (velocity (w (ctrl f)))
               0 (v_max f) (a_max f) (j_max f)) \<and>
      snd (SCurveTraj_Axis_SetTarget E (w, f) target) =
        snd (SCurve_Init E (angle (w (ctrl f))) target (velocity (w (ctrl f)))
               0 (v_max f) (a_max f) (j_max f)))"
  unfolding axis_set_target_unfold
  by (simp add: Let_def axis_s_curve_init_args)

theorem axis_set_target_start_state_witness:
  "running ex_axis \<and>
   profile (s (snd (fst (SCurveTraj_Axis_SetTarget ex_ext (ex_motors, ex_axis) 90)))) = (10, 2, 3) \<and>
   snd (SCurveTraj_Axis_SetTarget ex_ext (ex_motors, ex_axis) 90) = S_CURVE_SUCCESS \<and>
   \<not> running (ex_axis\<lparr>running := False\<rparr>) \<and>
   profile (s (snd (fst (SCurveTraj_Axis_SetTarget ex_ext
                           (ex_motors, ex_axis\<lparr>running := False\<rparr>) 90)))) = (10, 2, 0)"
proof -
  have r: "running ex_axis" by (simp add: ex_axis_def)
  have n: "\<not> running (ex_axis\<lparr>running := False\<rparr>)" by simp
  note a = axis_set_target_start_state [of ex_axis ex_ext ex_motors 90,
      THEN conjunct1, THEN mp, OF r]
  note b = axis_set_target_start_state [of "ex_axis\<lparr>running := False\<rparr>" ex_ext ex_motors 90,
      THEN conjunct2, THEN mp, OF n]
  have c: "profile (s (snd (fst (SCurveTraj_Axis_SetTarget ex_ext (ex_motors, ex_axis) 90)))) = (10, 2, 3)"
    unfolding a [THEN conjunct1] by (simp add: ex_axis_def ex_ext_def ex_motors_def)
  have d: "snd (SCurveTraj_Axis_SetTarget ex_ext (ex_motors, ex_axis) 90) = S_CURVE_SUCCESS"
    unfolding a [THEN conjunct2] by (simp add: ex_axis_def ex_ext_def ex_motors_def)
  have e: "profile (s (snd (fst (SCurveTraj_Axis_SetTarget ex_ext
                           (ex_motors, ex_axis\<lparr>running := False\<rparr>) 90)))) = (10, 2, 0)"
    unfolding b [THEN conjunct1] by (simp add: ex_axis_def ex_ext_def ex_motors_def)
  from r n c d e show ?thesis by blast
qed

section \<open>Failed synthesis stops the follower\<close>

text \<open>
  C2. When the synthesis inside \<^verbatim>\<open>SetTarget\<close> returns a result code other than
  success, the call returns that code and leaves the follower stopped, whatever its
  running flag was before: \<^verbatim>\<open>running\<close> is false, the velocity command of the motor
  (of every item's motor, for a group) is zero and the corrector (of every item) is
  zeroed. This holds for the single-axis follower and for a group with a valid array.
\<close>

theorem set_target_failure_stops:
  "(\<forall>c r. axis_s_curve_init E w f (running f) target = (c, r) \<and> r \<noteq> S_CURVE_SUCCESS \<longrightarrow>
      SCurveTraj_Axis_SetTarget E (w, f) target =
        ((w(ctrl f := (w (ctrl f))\<lparr>vel_ref := 0\<rparr>),
          f\<lparr>running := False, s := c, now := 0, pd := PD_memset0\<rparr>), r)) \<and>
   (\<forall>c r. group_items_valid g \<and>
      group_s_curve_init E w g (running g) target = (c, r) \<and> r \<noteq> S_CURVE_SUCCESS \<longrightarrow>
      (\<exists>w' g'. SCurveTraj_Group_SetTarget E (w, g) target = ((w', g'), r) \<and>
         \<not> running g' \<and> s g' = c \<and> now g' = 0 \<and> item_count g' = item_count g \<and>
         (\<forall>i<item_count g.
            item_ctrl (items g' ! i) = item_ctrl (items g ! i) \<and>
            vel_ref (w' (item_ctrl (items g ! i))) = 0 \<and>
            item_pd (items g' ! i) = PD_memset0)))"
proof (intro conjI allI impI)
  fix c r
  assume "axis_s_curve_init E w f (running f) target = (c, r) \<and> r \<noteq> S_CURVE_SUCCESS"
  then show "SCurveTraj_Axis_SetTarget E (w, f) target =
        ((w(ctrl f := (w (ctrl f))\<lparr>vel_ref := 0\<rparr>),
          f\<lparr>running := False, s := c, now := 0, pd := PD_memset0\<rparr>), r)"
    unfolding axis_set_target_unfold by (simp add: Let_def)
next
  fix c r
  assume a: "group_items_valid g \<and>
      group_s_curve_init E w g (running g) target = (c, r) \<and> r \<noteq> S_CURVE_SUCCESS"
  let ?g0 = "g\<lparr>running := False, s := c, now := 0\<rparr>"
  obtain w' g' where st: "SCurveTraj_Group_Stop (w, ?g0) = (w', g')"
    by (cases "SCurveTraj_Group_Stop (w, ?g0)")
  from a have v: "group_items_valid ?g0" by (simp add: group_items_valid_def)
  from a have n: "item_count g \<le> length (items g)" by (simp add: group_items_valid_def)
  note res = group_stop_result [OF v st]
  from a st have eq: "SCurveTraj_Group_SetTarget E (w, g) target = ((w', g'), r)"
    unfolding group_set_target_unfold by simp
  have g': "\<not> running g'" "s g' = c" "now g' = 0" "item_count g' = item_count g"
    by (subst res(1), simp)+
  have items: "\<forall>i<item_count g.
            item_ctrl (items g' ! i) = item_ctrl (items g ! i) \<and>
            vel_ref (w' (item_ctrl (items g ! i))) = 0 \<and>
            item_pd (items g' ! i) = PD_memset0"
  proof (intro allI impI)
    fix i assume i: "i < item_count g"
    with n have il: "i < length (items ?g0)" by simp
    from res(3) [OF il] i have it: "items g' ! i = (items g ! i)\<lparr>item_pd := PD_memset0\<rparr>"
      by simp
    from i have ex: "\<exists>j<item_count ?g0. item_ctrl (items ?g0 ! j) = item_ctrl (items g ! i)"
      by auto
    have "w' (item_ctrl (items g ! i)) = (w (item_ctrl (items g ! i)))\<lparr>vel_ref := 0\<rparr>"
      using res(4) [of "item_ctrl (items g ! i)"] ex by presburger
    with it show "item_ctrl (items g' ! i) = item_ctrl (items g ! i) \<and>
            vel_ref (w' (item_ctrl (items g ! i))) = 0 \<and>
            item_pd (items g' ! i) = PD_memset0" by simp
  qed
  from eq g' items show "\<exists>w' g'. SCurveTraj_Group_SetTarget E (w, g) target = ((w', g'), r) \<and>
         \<not> running g' \<and> s g' = c \<and> now g' = 0 \<and> item_count g' = item_count g \<and>
         (\<forall>i<item_count g.
            item_ctrl (items g' ! i) = item_ctrl (items g ! i) \<and>
            vel_ref (w' (item_ctrl (items g ! i))) = 0 \<and>
            item_pd (items g' ! i) = PD_memset0)" by blast
qed

lemma ex_axis_fail_init:
  "axis_s_curve_init ex_ext ex_motors (ex_axis\<lparr>v_max := 0\<rparr>) (running (ex_axis\<lparr>v_max := 0\<rparr>)) 90
     = (\<lparr>total_time = 80, profile = (10, 2, 3)\<rparr>, S_CURVE_FAILED)"
  by (simp add: axis_s_curve_init_args ex_ext_def ex_motors_def ex_axis_def)

lemma ex_group_fail_init:
  "group_s_curve_init ex_ext ex_motors (ex_group\<lparr>v_max := 0\<rparr>) (running (ex_group\<lparr>v_max := 0\<rparr>)) 90
     = (\<lparr>total_time = 78, profile = (12, 3, 3)\<rparr>, S_CURVE_FAILED)"
  by (simp add: group_s_curve_init_def ex_ext_def ex_motors_def ex_group_def fdiv_def
      MotorCtrl_GetAngle_def MotorCtrl_GetVelocity_def numeral_2_eq_2)

theorem set_target_failure_stops_witness:
  "axis_s_curve_init ex_ext ex_motors (ex_axis\<lparr>v_max := 0\<rparr>) (running (ex_axis\<lparr>v_max := 0\<rparr>)) 90
     = (\<lparr>total_time = 80, profile = (10, 2, 3)\<rparr>, S_CURVE_FAILED) \<and>
   S_CURVE_FAILED \<noteq> S_CURVE_SUCCESS \<and>
   running (ex_axis\<lparr>v_max := 0\<rparr>) \<and>
   SCurveTraj_Axis_SetTarget ex_ext (ex_motors, ex_axis\<lparr>v_max := 0\<rparr>) 90 =
     ((ex_motors(1 := \<lparr>angle = 10, velocity = 2, vel_ref = 0\<rparr>),
       ex_axis\<lparr>v_max := 0, running := False, s := \<lparr>total_time = 80, profile = (10, 2, 3)\<rparr>,
               now := 0, pd := PD_memset0\<rparr>), S_CURVE_FAILED) \<and>
   group_items_valid (ex_group\<lparr>v_max := 0\<rparr>) \<and>
   group_s_curve_init ex_ext ex_motors (ex_group\<lparr>v_max := 0\<rparr>) (running (ex_group\<lparr>v_max := 0\<rparr>)) 90
     = (\<lparr>total_time = 78, profile = (12, 3, 3)\<rparr>, S_CURVE_FAILED) \<and>
   (\<exists>w' g'. SCurveTraj_Group_SetTarget ex_ext (ex_motors, ex_group\<lparr>v_max := 0\<rparr>) 90
               = ((w', g'), S_CURVE_FAILED) \<and>
         \<not> running g' \<and> now g' = 0 \<and>
         vel_ref (w' 1) = 0 \<and> vel_ref (w' 2) = 0 \<and>
         item_pd (items g' ! 0) = PD_memset0 \<and> item_pd (items g' ! 1) = PD_memset0)"
proof -
  have ne: "S_CURVE_FAILED \<noteq> S_CURVE_SUCCESS" by simp
  have ra: "running (ex_axis\<lparr>v_max := 0\<rparr>)" by (simp add: ex_axis_def)
  have v: "group_items_valid (ex_group\<lparr>v_max := 0\<rparr>)"
    by (simp add: group_items_valid_def ex_group_def)
  note inst = set_target_failure_stops [of ex_ext ex_motors "ex_axis\<lparr>v_max := 0\<rparr>" 90
      "ex_group\<lparr>v_max := 0\<rparr>"]
  from inst ex_axis_fail_init ne
  have a: "SCurveTraj_Axis_SetTarget ex_ext (ex_motors, ex_axis\<lparr>v_max := 0\<rparr>) 90 =
        ((ex_motors(ctrl (ex_axis\<lparr>v_max := 0\<rparr>) :=
            (ex_motors (ctrl (ex_axis\<lparr>v_max := 0\<rparr>)))\<lparr>vel_ref := 0\<rparr>),
          ex_axis\<lparr>v_max := 0, running := False, s := \<lparr>total_time = 80, profile = (10, 2, 3)\<rparr>,
                  now := 0, pd := PD_memset0\<rparr>), S_CURVE_FAILED)"
    by blast
  have a': "SCurveTraj_Axis_SetTarget ex_ext (ex_motors, ex_axis\<lparr>v_max := 0\<rparr>) 90 =
     ((ex_motors(1 := \<lparr>angle = 10, velocity = 2, vel_ref = 0\<rparr>),
       ex_axis\<lparr>v_max := 0, running := False, s := \<lparr>total_time = 80, profile = (10, 2, 3)\<rparr>,
               now := 0, pd := PD_memset0\<rparr>), S_CURVE_FAILED)"
    unfolding a by (simp add: ex_axis_def ex_motors_def)
  from inst v ex_group_fail_init ne
  obtain w' g' where g:
    "SCurveTraj_Group_SetTarget ex_ext (ex_motors, ex_group\<lparr>v_max := 0\<rparr>) 90
       = ((w', g'), S_CURVE_FAILED)"
    "\<not> running g'" "now g' = 0"
    "\<forall>i<item_count (ex_group\<lparr>v_max := 0\<rparr>).
        item_ctrl (items g' ! i) = item_ctrl (items (ex_group\<lparr>v_max := 0\<rparr>) ! i) \<and>
        vel_ref (w' (item_ctrl (items (ex_group\<lparr>v_max := 0\<rparr>) ! i))) = 0 \<and>
        item_pd (items g' ! i) = PD_memset0"
    by blast
  from g(4) [rule_format, of 0] g(4) [rule_format, of 1]
  have "vel_ref (w' 1) = 0 \<and> vel_ref (w' 2) = 0 \<and>
         item_pd (items g' ! 0) = PD_memset0 \<and> item_pd (items g' ! 1) = PD_memset0"
    by (simp add: ex_group_def)
  with g(1-3) have "\<exists>w' g'. SCurveTraj_Group_SetTarget ex_ext (ex_motors, ex_group\<lparr>v_max := 0\<rparr>) 90
               = ((w', g'), S_CURVE_FAILED) \<and>
         \<not> running g' \<and> now g' = 0 \<and>
         vel_ref (w' 1) = 0 \<and> vel_ref (w' 2) = 0 \<and>
         item_pd (items g' ! 0) = PD_memset0 \<and> item_pd (items g' ! 1) = PD_memset0"
    by blast
  with ex_axis_fail_init ne ra a' v ex_group_fail_init show ?thesis by blast
qed

section \<open>Where the elapsed time is written\<close>

lemma group_update_now:
  "now (snd (SCurveTraj_Group_Update E (w, g))) =
     (if running g then now g + update_interval g else now g)"
  by (simp add: Let_def split_def)

lemma group_stop_now: "now (snd (SCurveTraj_Group_Stop (w, g))) = now g"
  by (simp add: Let_def split_def)

lemma group_reset_all_now: "now (snd (SCurveTraj_Group_ResetAll E (w, g))) = now g"
  by (simp add: Let_def split_def)

lemma group_init_now:
  "now (SCurveTraj_Group_Init E g config) =
     (if gcfg_update_interval config = 0 then now g else 0)"
  by (simp add: SCurveTraj_Group_Init_def Let_def)

lemma group_set_target_now:
  "SCurveTraj_Group_SetTarget E (w, g) target = ((w', g'), r) \<Longrightarrow> now g' = 0"
  unfolding group_set_target_unfold
  by (auto simp: Let_def split_def split: if_splits)

text \<open>
  C3 (as amended). The elapsed time \<^verbatim>\<open>now\<close> is set to 0 by every call of
  \<^verbatim>\<open>SetTarget\<close>, whether the synthesis succeeds or fails, and by \<^verbatim>\<open>Init\<close> with a
  non-zero update interval. \<^verbatim>\<open>Update\<close> of a running follower adds one update interval
  to it. \<^verbatim>\<open>Stop\<close>, \<^verbatim>\<open>ResetAll\<close>, \<^verbatim>\<open>EstimateDuration\<close>, \<^verbatim>\<open>Init\<close> with a zero
  update interval and \<^verbatim>\<open>Update\<close> of a stopped follower leave it as it was. This holds
  for the single-axis follower and for a group with valid arrays.
\<close>

theorem elapsed_time_writes:
  "now (snd (axis_do E c (w, f))) =
     (case c of
        Axis_Init config \<Rightarrow> if cfg_update_interval config = 0 then now f else 0
      | Axis_Update \<Rightarrow> if running f then now f + update_interval f else now f
      | Axis_SetTarget target \<Rightarrow> 0
      | _ \<Rightarrow> now f) \<and>
   (group_items_valid g \<and> (\<forall>config. d = Group_Init config \<longrightarrow> group_config_valid config) \<and>
    group_do E d (w, g) = (w', g') \<longrightarrow>
      now g' =
        (case d of
           Group_Init config \<Rightarrow> if gcfg_update_interval config = 0 then now g else 0
         | Group_Update \<Rightarrow> if running g then now g + update_interval g else now g
         | Group_SetTarget target \<Rightarrow> 0
         | _ \<Rightarrow> now g))"
proof (intro conjI impI)
  show "now (snd (axis_do E c (w, f))) =
     (case c of
        Axis_Init config \<Rightarrow> if cfg_update_interval config = 0 then now f else 0
      | Axis_Update \<Rightarrow> if running f then now f + update_interval f else now f
      | Axis_SetTarget target \<Rightarrow> 0
      | _ \<Rightarrow> now f)"
  proof (cases c)
    case (Axis_Init config)
    then show ?thesis by (simp add: SCurveTraj_Axis_Init_def)
  next
    case Axis_Update
    then show ?thesis by (simp add: Let_def)
  next
    case Axis_ResetAll
    then show ?thesis by (simp add: Let_def)
  next
    case Axis_Stop
    then show ?thesis by (simp add: Let_def)
  next
    case (Axis_SetTarget target)
    then show ?thesis by (simp add: Let_def split_def)
  next
    case (Axis_EstimateDuration target)
    then show ?thesis by simp
  qed
next
  assume a: "group_items_valid g \<and> (\<forall>config. d = Group_Init config \<longrightarrow> group_config_valid config) \<and>
    group_do E d (w, g) = (w', g')"
  then have res: "group_do E d (w, g) = (w', g')" by simp
  show "now g' =
        (case d of
           Group_Init config \<Rightarrow> if gcfg_update_interval config = 0 then now g else 0
         | Group_Update \<Rightarrow> if running g then now g + update_interval g else now g
         | Group_SetTarget target \<Rightarrow> 0
         | _ \<Rightarrow> now g)"
  proof (cases d)
    case (Group_Init config)
    with res have "g' = SCurveTraj_Group_Init E g config" by simp
    with Group_Init show ?thesis by (simp add: group_init_now)
  next
    case Group_Update
    with res have "g' = snd (SCurveTraj_Group_Update E (w, g))"
      by (metis group_do.simps(2) snd_conv)
    with Group_Update show ?thesis by (simp only: group_update_now group_op.case)
  next
    case Group_ResetAll
    with res have "g' = snd (SCurveTraj_Group_ResetAll E (w, g))"
      by (metis group_do.simps(3) snd_conv)
    with Group_ResetAll show ?thesis by (simp only: group_reset_all_now group_op.case)
  next
    case Group_Stop
    with res have "g' = snd (SCurveTraj_Group_Stop (w, g))"
      by (metis group_do.simps(4) snd_conv)
    with Group_Stop show ?thesis by (simp only: group_stop_now group_op.case)
  next
    case (Group_SetTarget target)
    with res obtain r where "SCurveTraj_Group_SetTarget E (w, g) target = ((w', g'), r)"
      by (cases "SCurveTraj_Group_SetTarget E (w, g) target")
        (auto simp del: SCurveTraj_Group_SetTarget.simps)
    from group_set_target_now [OF this] Group_SetTarget show ?thesis by simp
  next
    case (Group_EstimateDuration target)
    with res have "g' = g" by simp
    with Group_EstimateDuration show ?thesis by simp
  qed
qed

theorem elapsed_time_writes_witness:
  "now (snd (axis_do ex_ext (Axis_SetTarget 90) (ex_motors, ex_axis))) = 0 \<and>
   now (snd (axis_do ex_ext (Axis_Stop :: real axis_op) (ex_motors, ex_axis))) = 2 \<and>
   group_items_valid ex_group \<and>
   group_do ex_ext (Group_Update :: (real, real) group_op) (ex_motors, ex_group)
     = (SCurveTraj_Group_Update ex_ext (ex_motors, ex_group)) \<and>
   now (snd (SCurveTraj_Group_Update ex_ext (ex_motors, ex_group))) = 3 \<and>
   group_config_valid ex_group_config \<and>
   group_do ex_ext (Group_Init ex_group_config) (ex_motors, ex_group)
     = (ex_motors, SCurveTraj_Group_Init ex_ext ex_group ex_group_config) \<and>
   now (SCurveTraj_Group_Init ex_ext ex_group ex_group_config) = 0"
proof -
  have cv: "group_config_valid ex_group_config"
    by (simp add: group_config_valid_def ex_group_config_def)
  then have i': "\<forall>config. Group_Init ex_group_config = Group_Init config
             \<longrightarrow> group_config_valid config" by simp
  have d': "group_do ex_ext (Group_Init ex_group_config) (ex_motors, ex_group)
     = (ex_motors, SCurveTraj_Group_Init ex_ext ex_group ex_group_config)"
    by simp
  have v: "group_items_valid ex_group" by (simp add: group_items_valid_def ex_group_def)
  have i: "\<forall>config. (Group_Update :: (real, real) group_op) = Group_Init config
             \<longrightarrow> group_config_valid config" by simp
  have d: "group_do ex_ext (Group_Update :: (real, real) group_op) (ex_motors, ex_group)
     = (fst (SCurveTraj_Group_Update ex_ext (ex_motors, ex_group)),
            snd (SCurveTraj_Group_Update ex_ext (ex_motors, ex_group)))"
    by (simp del: SCurveTraj_Group_Update.simps)
  have a: "now (snd (axis_do ex_ext (Axis_SetTarget 90) (ex_motors, ex_axis))) = 0"
    using elapsed_time_writes [of ex_ext "Axis_SetTarget 90" ex_motors ex_axis, THEN conjunct1]
    by simp
  have b: "now (snd (axis_do ex_ext (Axis_Stop :: real axis_op) (ex_motors, ex_axis))) = 2"
    using elapsed_time_writes [of ex_ext "Axis_Stop" ex_motors ex_axis, THEN conjunct1]
    by (simp add: ex_axis_def)
  from elapsed_time_writes [where E = ex_ext and w = ex_motors and g = ex_group
      and d = Group_Update and w' = "fst (SCurveTraj_Group_Update ex_ext (ex_motors, ex_group))"
      and g' = "snd (SCurveTraj_Group_Update ex_ext (ex_motors, ex_group))", THEN conjunct2] v i d
  have c: "now (snd (SCurveTraj_Group_Update ex_ext (ex_motors, ex_group))) = 3"
    by (simp del: SCurveTraj_Group_Update.simps add: ex_group_def)
  from elapsed_time_writes [where E = ex_ext and w = ex_motors and g = ex_group
      and d = "Group_Init ex_group_config" and w' = ex_motors
      and g' = "SCurveTraj_Group_Init ex_ext ex_group ex_group_config", THEN conjunct2] v i' d'
  have e: "now (SCurveTraj_Group_Init ex_ext ex_group ex_group_config) = 0"
    by (simp add: ex_group_config_def)
  from a b v d c cv d' e show ?thesis by (simp del: SCurveTraj_Group_Update.simps)
qed

text \<open>
  The elapsed time is also reset when no curve is accepted: a call of \<^verbatim>\<open>SetTarget\<close>
  whose synthesis fails, and a call of \<^verbatim>\<open>Init\<close>, both take it from 2 to 0.
\<close>

theorem elapsed_time_reset_counterexample:
  "now (ex_axis\<lparr>v_max := 0\<rparr>) \<noteq> 0 \<and>
   snd (SCurveTraj_Axis_SetTarget ex_ext (ex_motors, ex_axis\<lparr>v_max := 0\<rparr>) 90) \<noteq> S_CURVE_SUCCESS \<and>
   now (snd (fst (SCurveTraj_Axis_SetTarget ex_ext (ex_motors, ex_axis\<lparr>v_max := 0\<rparr>) 90))) = 0 \<and>
   now ex_axis \<noteq> 0 \<and>
   now (SCurveTraj_Axis_Init ex_ext ex_axis ex_axis_config) = 0"
  unfolding axis_set_target_unfold
  by (simp add: Let_def axis_s_curve_init_args ex_axis_def ex_ext_def ex_motors_def
      SCurveTraj_Axis_Init_def ex_axis_config_def)

section \<open>The finished predicate\<close>

lemma axis_update_fields:
  "running (snd (SCurveTraj_Axis_Update E (w, f))) = running f"
  "s (snd (SCurveTraj_Axis_Update E (w, f))) = s f"
  "update_interval (snd (SCurveTraj_Axis_Update E (w, f))) = update_interval f"
  "now (snd (SCurveTraj_Axis_Update E (w, f))) =
     (if running f then now f + update_interval f else now f)"
  by (simp_all add: Let_def)

lemma group_update_fields:
  "running (snd (SCurveTraj_Group_Update E (w, g))) = running g"
  "s (snd (SCurveTraj_Group_Update E (w, g))) = s g"
  "update_interval (snd (SCurveTraj_Group_Update E (w, g))) = update_interval g"
  by (simp_all add: Let_def split_def)

lemma axis_ticks_fields:
  "running (snd ((SCurveTraj_Axis_Update E ^^ n) (w, f))) = running f \<and>
   s (snd ((SCurveTraj_Axis_Update E ^^ n) (w, f))) = s f \<and>
   update_interval (snd ((SCurveTraj_Axis_Update E ^^ n) (w, f))) = update_interval f \<and>
   (0 \<le> update_interval f \<longrightarrow> now f \<le> now (snd ((SCurveTraj_Axis_Update E ^^ n) (w, f))))"
proof (induction n)
  case 0
  then show ?case by simp
next
  case (Suc n)
  obtain w1 f1 where st: "(SCurveTraj_Axis_Update E ^^ n) (w, f) = (w1, f1)"
    by (cases "(SCurveTraj_Axis_Update E ^^ n) (w, f)")
  with Suc have ih: "running f1 = running f" "s f1 = s f" "update_interval f1 = update_interval f"
    "0 \<le> update_interval f \<longrightarrow> now f \<le> now f1" by simp_all
  have step: "(SCurveTraj_Axis_Update E ^^ Suc n) (w, f) = SCurveTraj_Axis_Update E (w1, f1)"
    using st by simp
  show ?case unfolding step axis_update_fields using ih by auto
qed

lemma group_ticks_fields:
  "running (snd ((SCurveTraj_Group_Update E ^^ n) (w, g))) = running g \<and>
   s (snd ((SCurveTraj_Group_Update E ^^ n) (w, g))) = s g \<and>
   update_interval (snd ((SCurveTraj_Group_Update E ^^ n) (w, g))) = update_interval g \<and>
   (0 \<le> update_interval g \<longrightarrow> now g \<le> now (snd ((SCurveTraj_Group_Update E ^^ n) (w, g))))"
proof (induction n)
  case 0
  then show ?case by simp
next
  case (Suc n)
  obtain w1 g1 where st: "(SCurveTraj_Group_Update E ^^ n) (w, g) = (w1, g1)"
    by (cases "(SCurveTraj_Group_Update E ^^ n) (w, g)")
  with Suc have ih: "running g1 = running g" "s g1 = s g" "update_interval g1 = update_interval g"
    "0 \<le> update_interval g \<longrightarrow> now g \<le> now g1" by simp_all
  have step: "(SCurveTraj_Group_Update E ^^ Suc n) (w, g) = SCurveTraj_Group_Update E (w1, g1)"
    using st by simp
  show ?case unfolding step group_update_fields group_update_now using ih by auto
qed

lemma group_stop_running: "\<not> running (snd (SCurveTraj_Group_Stop (w, g)))"
  by (simp add: Let_def split_def)

text \<open>
  C4 (as amended). \<^verbatim>\<open>SCurveTraj_isFinished\<close> holds exactly when the follower is running and its
  elapsed time has reached the total time of its curve. Right after \<^verbatim>\<open>Stop\<close> it is
  false, whatever the elapsed time. \<^verbatim>\<open>Update\<close> never clears it: with an update
  interval that is not negative, a follower that is finished is still finished after any
  number of further ticks. This holds for the single-axis follower and for the group.
\<close>

theorem finished_predicate:
  "(SCurveTraj_isFinished f \<longleftrightarrow> running f \<and> total_time (s f) \<le> now f) \<and>
   (SCurveTraj_isFinished g \<longleftrightarrow> running g \<and> total_time (s g) \<le> now g) \<and>
   \<not> SCurveTraj_isFinished (snd (SCurveTraj_Axis_Stop (w, f))) \<and>
   \<not> SCurveTraj_isFinished (snd (SCurveTraj_Group_Stop (w, g))) \<and>
   (0 \<le> update_interval f \<and> SCurveTraj_isFinished f \<longrightarrow>
      SCurveTraj_isFinished (snd ((SCurveTraj_Axis_Update E ^^ n) (w, f)))) \<and>
   (group_items_valid g \<and> 0 \<le> update_interval g \<and> SCurveTraj_isFinished g \<longrightarrow>
      SCurveTraj_isFinished (snd ((SCurveTraj_Group_Update E ^^ n) (w, g))))"
proof (intro conjI impI)
  show "SCurveTraj_isFinished f \<longleftrightarrow> running f \<and> total_time (s f) \<le> now f"
    by (simp add: SCurveTraj_isFinished_def)
  show "SCurveTraj_isFinished g \<longleftrightarrow> running g \<and> total_time (s g) \<le> now g"
    by (simp add: SCurveTraj_isFinished_def)
  show "\<not> SCurveTraj_isFinished (snd (SCurveTraj_Axis_Stop (w, f)))"
    by (simp add: SCurveTraj_isFinished_def Let_def)
  show "\<not> SCurveTraj_isFinished (snd (SCurveTraj_Group_Stop (w, g)))"
    by (simp only: SCurveTraj_isFinished_def group_stop_running simp_thms not_False_eq_True)
next
  assume a: "0 \<le> update_interval f \<and> SCurveTraj_isFinished f"
  note t = axis_ticks_fields [where E = E and n = n and w = w and f = f]
  from a t show "SCurveTraj_isFinished (snd ((SCurveTraj_Axis_Update E ^^ n) (w, f)))"
    unfolding SCurveTraj_isFinished_def by auto
next
  assume a: "group_items_valid g \<and> 0 \<le> update_interval g \<and> SCurveTraj_isFinished g"
  note t = group_ticks_fields [where E = E and n = n and w = w and g = g]
  from a t show "SCurveTraj_isFinished (snd ((SCurveTraj_Group_Update E ^^ n) (w, g)))"
    unfolding SCurveTraj_isFinished_def by auto
qed

theorem finished_predicate_witness:
  "0 \<le> update_interval (ex_axis\<lparr>now := 7\<rparr>) \<and>
   SCurveTraj_isFinished (ex_axis\<lparr>now := 7\<rparr>) \<and>
   SCurveTraj_isFinished (snd ((SCurveTraj_Axis_Update ex_ext ^^ 3) (ex_motors, ex_axis\<lparr>now := 7\<rparr>))) \<and>
   \<not> SCurveTraj_isFinished (snd (SCurveTraj_Axis_Stop (ex_motors, ex_axis\<lparr>now := 7\<rparr>))) \<and>
   group_items_valid (ex_group\<lparr>now := 7\<rparr>) \<and>
   0 \<le> update_interval (ex_group\<lparr>now := 7\<rparr>) \<and>
   SCurveTraj_isFinished (ex_group\<lparr>now := 7\<rparr>) \<and>
   SCurveTraj_isFinished (snd ((SCurveTraj_Group_Update ex_ext ^^ 3) (ex_motors, ex_group\<lparr>now := 7\<rparr>)))"
proof -
  have a: "0 \<le> update_interval (ex_axis\<lparr>now := 7\<rparr>)" by (simp add: ex_axis_def)
  have b: "SCurveTraj_isFinished (ex_axis\<lparr>now := 7\<rparr>)"
    by (simp add: SCurveTraj_isFinished_def ex_axis_def)
  have c: "group_items_valid (ex_group\<lparr>now := 7\<rparr>)"
    by (simp add: group_items_valid_def ex_group_def)
  have d: "0 \<le> update_interval (ex_group\<lparr>now := 7\<rparr>)" by (simp add: ex_group_def)
  have e: "SCurveTraj_isFinished (ex_group\<lparr>now := 7\<rparr>)"
    by (simp add: SCurveTraj_isFinished_def ex_group_def)
  note inst = finished_predicate [where f = "ex_axis\<lparr>now := 7\<rparr>" and g = "ex_group\<lparr>now := 7\<rparr>"
      and w = ex_motors and E = ex_ext and n = 3]
  from inst a b have f: "SCurveTraj_isFinished
      (snd ((SCurveTraj_Axis_Update ex_ext ^^ 3) (ex_motors, ex_axis\<lparr>now := 7\<rparr>)))" by blast
  from inst c d e have g: "SCurveTraj_isFinished
      (snd ((SCurveTraj_Group_Update ex_ext ^^ 3) (ex_motors, ex_group\<lparr>now := 7\<rparr>)))" by blast
  from inst have h: "\<not> SCurveTraj_isFinished
      (snd (SCurveTraj_Axis_Stop (ex_motors, ex_axis\<lparr>now := 7\<rparr>)))" by blast
  from a b c d e f g h show ?thesis by blast
qed

text \<open>
  \<^verbatim>\<open>Init\<close> rejects only an update interval of 0. With the interval \<open>-1\<close> it
  accepts the configuration; after \<^verbatim>\<open>SetTarget\<close> to the measured position the follower
  is finished at elapsed time 0, and the next \<^verbatim>\<open>Update\<close> takes the elapsed time to
  \<open>-1\<close>: the follower is still running and no longer finished.
\<close>

theorem finished_cleared_counterexample:
  "cfg_update_interval (ex_axis_config\<lparr>cfg_update_interval := - 1\<rparr>) \<noteq> 0 \<and>
   update_interval (SCurveTraj_Axis_Init ex_ext ex_axis
                      (ex_axis_config\<lparr>cfg_update_interval := - 1\<rparr>)) = - 1 \<and>
   SCurveTraj_isFinished
     (snd (fst (SCurveTraj_Axis_SetTarget ex_ext
                  (ex_motors, SCurveTraj_Axis_Init ex_ext ex_axis
                                (ex_axis_config\<lparr>cfg_update_interval := - 1\<rparr>)) 14))) \<and>
   running
     (snd (SCurveTraj_Axis_Update ex_ext
            (fst (SCurveTraj_Axis_SetTarget ex_ext
                    (ex_motors, SCurveTraj_Axis_Init ex_ext ex_axis
                                  (ex_axis_config\<lparr>cfg_update_interval := - 1\<rparr>)) 14)))) \<and>
   \<not> SCurveTraj_isFinished
     (snd (SCurveTraj_Axis_Update ex_ext
            (fst (SCurveTraj_Axis_SetTarget ex_ext
                    (ex_motors, SCurveTraj_Axis_Init ex_ext ex_axis
                                  (ex_axis_config\<lparr>cfg_update_interval := - 1\<rparr>)) 14))))"
  by (simp add: SCurveTraj_Axis_Init_def ex_axis_config_def ex_axis_def ex_ext_def ex_motors_def
      axis_s_curve_init_args SCurveTraj_isFinished_def Let_def Motor_VelCtrl_SetRef_def
      MotorCtrl_GetAngle_def DPS2RPM_def)

section \<open>The consensus start state of a group\<close>

lemma group_sum_loop:
  "fold (group_sum_item w its) [0..<n] (p, v) =
     (p + (\<Sum>i<n. angle (w (item_ctrl (its ! i)))),
      v + (\<Sum>i<n. velocity (w (item_ctrl (its ! i)))))"
proof (induction n)
  case 0
  then show ?case by simp
next
  case (Suc n)
  have "fold (group_sum_item w its) [0..<Suc n] (p, v) =
          group_sum_item w its n (fold (group_sum_item w its) [0..<n] (p, v))"
    by (rule fold_upt_Suc)
  also have "\<dots> = (p + (\<Sum>i<Suc n. angle (w (item_ctrl (its ! i)))),
      v + (\<Sum>i<Suc n. velocity (w (item_ctrl (its ! i)))))"
    unfolding Suc.IH by (simp add: MotorCtrl_GetAngle_def MotorCtrl_GetVelocity_def)
  finally show ?case .
qed

lemma group_s_curve_init_mean:
  "0 < item_count g \<Longrightarrow>
   group_s_curve_init E w g r target =
     (SCurve_Init E
            ((\<Sum>i<item_count g. angle (w (item_ctrl (items g ! i)))) / real (item_count g))
            target
            ((\<Sum>i<item_count g. velocity (w (item_ctrl (items g ! i)))) / real (item_count g))
            (if r then SCurve_CalcA E (s g) (now g) else 0)
            (v_max g) (a_max g) (j_max g))"
  by (simp add: group_s_curve_init_def group_sum_loop fdiv_def)

lemma group_stop_curve: "s (snd (SCurveTraj_Group_Stop (w, g))) = s g"
  by (simp add: Let_def split_def)

text \<open>
  C5. For a group with at least one item (and a valid array), the start position and
  the start velocity that \<^verbatim>\<open>group_s_curve_init\<close> passes to \<^verbatim>\<open>SCurve_Init\<close> are the
  arithmetic means, over the items, of the measured angles and of the measured
  velocities of the items' motors. \<^verbatim>\<open>SCurveTraj_Group_SetTarget\<close> installs the curve
  synthesized from these means and returns its result code, and
  \<^verbatim>\<open>SCurveTraj_Group_EstimateDuration\<close> reports the duration of that same synthesis.
\<close>

theorem group_consensus_start:
  "0 < item_count g \<and> group_items_valid g \<longrightarrow>
     (let start_position =
            (\<Sum>i<item_count g. angle (w (item_ctrl (items g ! i)))) / real (item_count g);
          start_velocity =
            (\<Sum>i<item_count g. velocity (w (item_ctrl (items g ! i)))) / real (item_count g);
          synth = SCurve_Init E start_position target start_velocity
                    (if running g then SCurve_CalcA E (s g) (now g) else 0)
                    (v_max g) (a_max g) (j_max g)
      in group_s_curve_init E w g (running g) target = synth \<and>
         (\<exists>w' g'. SCurveTraj_Group_SetTarget E (w, g) target = ((w', g'), snd synth) \<and>
                   s g' = fst synth) \<and>
         SCurveTraj_Group_EstimateDuration E w g target =
           (if snd synth \<noteq> S_CURVE_SUCCESS then - 1 else total_time (fst synth)))"
proof
  assume a: "0 < item_count g \<and> group_items_valid g"
  define synth where "synth = SCurve_Init E
            ((\<Sum>i<item_count g. angle (w (item_ctrl (items g ! i)))) / real (item_count g))
            target
            ((\<Sum>i<item_count g. velocity (w (item_ctrl (items g ! i)))) / real (item_count g))
            (if running g then SCurve_CalcA E (s g) (now g) else 0)
            (v_max g) (a_max g) (j_max g)"
  from a have init: "group_s_curve_init E w g (running g) target = synth"
    unfolding synth_def by (simp only: group_s_curve_init_mean)
  have st: "\<exists>w' g'. SCurveTraj_Group_SetTarget E (w, g) target = ((w', g'), snd synth) \<and>
                   s g' = fst synth"
  proof (cases "snd synth = S_CURVE_SUCCESS")
    case True
    with init have "SCurveTraj_Group_SetTarget E (w, g) target =
        ((w, g\<lparr>running := True, s := fst synth, now := 0\<rparr>), snd synth)"
      unfolding group_set_target_unfold by (simp add: split_def)
    then show ?thesis by simp
  next
    case False
    let ?g0 = "g\<lparr>running := False, s := fst synth, now := 0\<rparr>"
    from False init have "SCurveTraj_Group_SetTarget E (w, g) target =
        (SCurveTraj_Group_Stop (w, ?g0), snd synth)"
      unfolding group_set_target_unfold by (simp add: split_def)
    then have "SCurveTraj_Group_SetTarget E (w, g) target =
        ((fst (SCurveTraj_Group_Stop (w, ?g0)), snd (SCurveTraj_Group_Stop (w, ?g0))),
             snd synth)" by simp
    moreover have "s (snd (SCurveTraj_Group_Stop (w, ?g0))) = fst synth"
      by (simp only: group_stop_curve) simp
    ultimately show ?thesis by blast
  qed
  have est: "SCurveTraj_Group_EstimateDuration E w g target =
           (if snd synth \<noteq> S_CURVE_SUCCESS then - 1 else total_time (fst synth))"
    unfolding SCurveTraj_Group_EstimateDuration_def init by (simp add: split_def)
  from init st est show "(let start_position =
            (\<Sum>i<item_count g. angle (w (item_ctrl (items g ! i)))) / real (item_count g);
          start_velocity =
            (\<Sum>i<item_count g. velocity (w (item_ctrl (items g ! i)))) / real (item_count g);
          synth = SCurve_Init E start_position target start_velocity
                    (if running g then SCurve_CalcA E (s g) (now g) else 0)
                    (v_max g) (a_max g) (j_max g)
      in group_s_curve_init E w g (running g) target = synth \<and>
         (\<exists>w' g'. SCurveTraj_Group_SetTarget E (w, g) target = ((w', g'), snd synth) \<and>
                   s g' = fst synth) \<and>
         SCurveTraj_Group_EstimateDuration E w g target =
           (if snd synth \<noteq> S_CURVE_SUCCESS then - 1 else total_time (fst synth)))"
    unfolding Let_def synth_def by blast
qed

theorem group_consensus_start_witness:
  "0 < item_count ex_group \<and> group_items_valid ex_group \<and>
   group_s_curve_init ex_ext ex_motors ex_group (running ex_group) 90
     = (\<lparr>total_time = 78, profile = (12, 3, 3)\<rparr>, S_CURVE_SUCCESS) \<and>
   (\<exists>w' g'. SCurveTraj_Group_SetTarget ex_ext (ex_motors, ex_group) 90
               = ((w', g'), S_CURVE_SUCCESS) \<and>
            s g' = \<lparr>total_time = 78, profile = (12, 3, 3)\<rparr>) \<and>
   SCurveTraj_Group_EstimateDuration ex_ext ex_motors ex_group 90 = 78"
proof -
  have p: "0 < item_count ex_group" by (simp add: ex_group_def)
  have v: "group_items_valid ex_group" by (simp add: group_items_valid_def ex_group_def)
  have synth: "SCurve_Init ex_ext
       ((\<Sum>i<item_count ex_group. angle (ex_motors (item_ctrl (items ex_group ! i))))
          / real (item_count ex_group))
       90
       ((\<Sum>i<item_count ex_group. velocity (ex_motors (item_ctrl (items ex_group ! i))))
          / real (item_count ex_group))
       (if running ex_group then SCurve_CalcA ex_ext (s ex_group) (now ex_group) else 0)
       (v_max ex_group) (a_max ex_group) (j_max ex_group)
     = (\<lparr>total_time = 78, profile = (12, 3, 3)\<rparr>, S_CURVE_SUCCESS)"
    by (simp add: ex_group_def ex_ext_def ex_motors_def numeral_2_eq_2)
  from group_consensus_start [where g = ex_group and w = ex_motors and E = ex_ext
      and target = 90] p v
  show ?thesis unfolding Let_def synth by simp
qed



lemma group_s_curve_init_quotients:
  "group_s_curve_init E w g r target =
     SCurve_Init_float E
       (fdiv (\<Sum>i<item_count g. angle (w (item_ctrl (items g ! i)))) (real (item_count g)))
       target
       (fdiv (\<Sum>i<item_count g. velocity (w (item_ctrl (items g ! i)))) (real (item_count g)))
       (if r then SCurve_CalcA E (s g) (now g) else 0)
       (v_max g) (a_max g) (j_max g)"
  by (simp add: group_s_curve_init_def group_sum_loop Let_def)

lemma group_s_curve_init_empty:
  "item_count g = 0 \<Longrightarrow>
   group_s_curve_init E w g r target =
     SCurve_Init_nonfinite E NaN target NaN
       (if r then SCurve_CalcA E (s g) (now g) else 0) (v_max g) (a_max g) (j_max g)"
  by (simp add: group_s_curve_init_quotients fdiv_def)

lemma group_stop_empty:
  "item_count g = 0 \<Longrightarrow> SCurveTraj_Group_Stop (w, g) = (w, g\<lparr>running := False\<rparr>)"
  by (simp add: Let_def)

text \<open>
  C10. \<^verbatim>\<open>group_s_curve_init\<close> divides the two sums by \<^verbatim>\<open>(float) item_count\<close> without
  testing it: for every group with a valid array, the start position and the start
  velocity passed to the synthesis are the quotients of the summed angles and of the
  summed velocities by \<^verbatim>\<open>item_count\<close>. Such a quotient is a finite number, the mean,
  exactly when \<^verbatim>\<open>item_count\<close> is positive. With \<^verbatim>\<open>item_count = 0\<close> both divisions are
  \<^verbatim>\<open>0 / 0\<close> and yield NaN, and the program goes on with them: the synthesis is called
  with NaN as start position and start velocity, \<^verbatim>\<open>SetTarget\<close> installs its curve,
  sets \<^verbatim>\<open>now\<close> to 0 and \<^verbatim>\<open>running\<close> by its result code, and \<^verbatim>\<open>EstimateDuration\<close>
  reports the duration of that curve or \<open>-1\<close>.
\<close>

theorem group_mean_division:
  "(group_items_valid g \<longrightarrow>
      group_s_curve_init E w g r target =
        SCurve_Init_float E
          (fdiv (\<Sum>i<item_count g. angle (w (item_ctrl (items g ! i)))) (real (item_count g)))
          target
          (fdiv (\<Sum>i<item_count g. velocity (w (item_ctrl (items g ! i)))) (real (item_count g)))
          (if r then SCurve_CalcA E (s g) (now g) else 0)
          (v_max g) (a_max g) (j_max g)) \<and>
   ((\<exists>m. fdiv x (real (item_count g)) = Finite m) \<longleftrightarrow> 0 < item_count g) \<and>
   (item_count g = 0 \<longrightarrow>
      fdiv (\<Sum>i<item_count g. angle (w (item_ctrl (items g ! i)))) (real (item_count g)) = NaN \<and>
      fdiv (\<Sum>i<item_count g. velocity (w (item_ctrl (items g ! i)))) (real (item_count g)) = NaN \<and>
      group_s_curve_init E w g r target =
        SCurve_Init_nonfinite E NaN target NaN
          (if r then SCurve_CalcA E (s g) (now g) else 0) (v_max g) (a_max g) (j_max g) \<and>
      SCurveTraj_Group_SetTarget E (w, g) target =
        (let (c, r') = SCurve_Init_nonfinite E NaN target NaN
                         (if running g then SCurve_CalcA E (s g) (now g) else 0)
                         (v_max g) (a_max g) (j_max g)
         in ((w, g\<lparr>running := (r' = S_CURVE_SUCCESS), s := c, now := 0\<rparr>), r')) \<and>
      SCurveTraj_Group_EstimateDuration E w g target =
        (let (c, r') = SCurve_Init_nonfinite E NaN target NaN
                         (if running g then SCurve_CalcA E (s g) (now g) else 0)
                         (v_max g) (a_max g) (j_max g)
         in if r' \<noteq> S_CURVE_SUCCESS then - 1 else total_time c))"
proof (intro conjI impI)
  show "group_s_curve_init E w g r target =
        SCurve_Init_float E
          (fdiv (\<Sum>i<item_count g. angle (w (item_ctrl (items g ! i)))) (real (item_count g)))
          target
          (fdiv (\<Sum>i<item_count g. velocity (w (item_ctrl (items g ! i)))) (real (item_count g)))
          (if r then SCurve_CalcA E (s g) (now g) else 0)
          (v_max g) (a_max g) (j_max g)"
    by (rule group_s_curve_init_quotients)
  show "(\<exists>m. fdiv x (real (item_count g)) = Finite m) \<longleftrightarrow> 0 < item_count g"
    by (simp add: fdiv_def)
next
  assume z: "item_count g = 0"
  show "fdiv (\<Sum>i<item_count g. angle (w (item_ctrl (items g ! i)))) (real (item_count g)) = NaN"
    using z by (simp add: fdiv_def)
  show "fdiv (\<Sum>i<item_count g. velocity (w (item_ctrl (items g ! i)))) (real (item_count g)) = NaN"
    using z by (simp add: fdiv_def)
  show "group_s_curve_init E w g r target =
        SCurve_Init_nonfinite E NaN target NaN
          (if r then SCurve_CalcA E (s g) (now g) else 0) (v_max g) (a_max g) (j_max g)"
    using z by (rule group_s_curve_init_empty)
  have z': "item_count (g\<lparr>running := False, s := c, now := 0\<rparr>) = 0" for c
    using z by simp
  show "SCurveTraj_Group_SetTarget E (w, g) target =
        (let (c, r') = SCurve_Init_nonfinite E NaN target NaN
                         (if running g then SCurve_CalcA E (s g) (now g) else 0)
                         (v_max g) (a_max g) (j_max g)
         in ((w, g\<lparr>running := (r' = S_CURVE_SUCCESS), s := c, now := 0\<rparr>), r'))"
    unfolding group_set_target_unfold group_s_curve_init_empty [OF z]
    by (simp add: Let_def split_def group_stop_empty [OF z'] del: SCurveTraj_Group_Stop.simps)
  show "SCurveTraj_Group_EstimateDuration E w g target =
        (let (c, r') = SCurve_Init_nonfinite E NaN target NaN
                         (if running g then SCurve_CalcA E (s g) (now g) else 0)
                         (v_max g) (a_max g) (j_max g)
         in if r' \<noteq> S_CURVE_SUCCESS then - 1 else total_time c)"
    unfolding SCurveTraj_Group_EstimateDuration_def group_s_curve_init_empty [OF z] by simp
qed

theorem group_mean_division_witness:
  "item_count (ex_group\<lparr>item_count := 0\<rparr>) = 0 \<and>
   fdiv 0 (real (item_count (ex_group\<lparr>item_count := 0\<rparr>))) = NaN \<and>
   SCurveTraj_Group_SetTarget ex_ext (ex_motors, ex_group\<lparr>item_count := 0\<rparr>) 90 =
     ((ex_motors, ex_group\<lparr>item_count := 0, running := True,
                           s := \<lparr>total_time = 0, profile = (0, 0, 3)\<rparr>, now := 0\<rparr>),
      S_CURVE_SUCCESS) \<and>
   SCurveTraj_Group_EstimateDuration ex_ext ex_motors (ex_group\<lparr>item_count := 0\<rparr>) 90 = 0 \<and>
   group_items_valid ex_group \<and> 0 < item_count ex_group \<and>
   group_s_curve_init ex_ext ex_motors ex_group True 90
     = (\<lparr>total_time = 78, profile = (12, 3, 3)\<rparr>, S_CURVE_SUCCESS)"
proof -
  have z: "item_count (ex_group\<lparr>item_count := 0\<rparr>) = 0" by simp
  have v: "group_items_valid ex_group" by (simp add: group_items_valid_def ex_group_def)
  have p: "0 < item_count ex_group" by (simp add: ex_group_def)
  note empty = group_mean_division [where g = "ex_group\<lparr>item_count := 0\<rparr>" and E = ex_ext
      and w = ex_motors and r = True and target = 90, THEN conjunct2, THEN conjunct2, THEN mp, OF z]
  from empty have a: "fdiv 0 (real (item_count (ex_group\<lparr>item_count := 0\<rparr>))) = NaN" by simp
  from empty have b: "SCurveTraj_Group_SetTarget ex_ext (ex_motors, ex_group\<lparr>item_count := 0\<rparr>) 90 =
     ((ex_motors, ex_group\<lparr>item_count := 0, running := True,
                           s := \<lparr>total_time = 0, profile = (0, 0, 3)\<rparr>, now := 0\<rparr>),
      S_CURVE_SUCCESS)"
    by (simp add: ex_ext_def ex_group_def del: SCurveTraj_Group_SetTarget.simps)
  from empty have c: "SCurveTraj_Group_EstimateDuration ex_ext ex_motors
        (ex_group\<lparr>item_count := 0\<rparr>) 90 = 0"
    by (simp add: ex_ext_def ex_group_def del: SCurveTraj_Group_SetTarget.simps)
  from group_mean_division [where g = ex_group and E = ex_ext
      and w = ex_motors and r = True and target = 90, THEN conjunct1, THEN mp, OF v]
  have d: "group_s_curve_init ex_ext ex_motors ex_group True 90
     = (\<lparr>total_time = 78, profile = (12, 3, 3)\<rparr>, S_CURVE_SUCCESS)"
    by (simp add: ex_ext_def ex_group_def ex_motors_def fdiv_def numeral_2_eq_2)
  from z a b c v p d show ?thesis by blast
qed

section \<open>Estimating a duration\<close>

text \<open>
  C6. \<^verbatim>\<open>EstimateDuration\<close> reads the follower through a pointer to const and lets the
  synthesis write a local curve, so the state in which the call returns is the state in
  which it was made. Its synthesis is the one \<^verbatim>\<open>SetTarget\<close> would perform in that
  state: it returns the total time of the curve that \<^verbatim>\<open>SetTarget\<close> would install when
  the result code is success, and \<open>-1\<close> otherwise. This holds for the single-axis
  follower and for a group with a valid array.
\<close>

theorem estimate_duration_frame:
  "axis_do E (Axis_EstimateDuration target) (w, f) = (w, f) \<and>
   (\<forall>c r. axis_s_curve_init E w f (running f) target = (c, r) \<longrightarrow>
      SCurveTraj_Axis_EstimateDuration E w f target =
        (if r = S_CURVE_SUCCESS then total_time c else - 1) \<and>
      s (snd (fst (SCurveTraj_Axis_SetTarget E (w, f) target))) = c \<and>
      snd (SCurveTraj_Axis_SetTarget E (w, f) target) = r) \<and>
   (\<forall>c r. group_items_valid g \<and> group_s_curve_init E w g (running g) target = (c, r) \<longrightarrow>
      group_do E (Group_EstimateDuration target) (w, g) = (w, g) \<and>
      SCurveTraj_Group_EstimateDuration E w g target =
        (if r = S_CURVE_SUCCESS then total_time c else - 1) \<and>
      (\<exists>w' g'. SCurveTraj_Group_SetTarget E (w, g) target = ((w', g'), r) \<and> s g' = c))"
proof (intro conjI allI impI)
  show "axis_do E (Axis_EstimateDuration target) (w, f) = (w, f)" by simp
next
  fix c r assume a: "axis_s_curve_init E w f (running f) target = (c, r)"
  show "SCurveTraj_Axis_EstimateDuration E w f target =
        (if r = S_CURVE_SUCCESS then total_time c else - 1)"
    unfolding SCurveTraj_Axis_EstimateDuration_def a by simp
  show "s (snd (fst (SCurveTraj_Axis_SetTarget E (w, f) target))) = c"
    unfolding axis_set_target_unfold a by (simp add: Let_def)
  show "snd (SCurveTraj_Axis_SetTarget E (w, f) target) = r"
    unfolding axis_set_target_unfold a by (simp add: Let_def)
next
  fix c r
  assume a: "group_items_valid g \<and> group_s_curve_init E w g (running g) target = (c, r)"
  then have i: "group_s_curve_init E w g (running g) target = (c, r)" by simp
  show est: "SCurveTraj_Group_EstimateDuration E w g target =
        (if r = S_CURVE_SUCCESS then total_time c else - 1)"
    unfolding SCurveTraj_Group_EstimateDuration_def i by simp
  show "group_do E (Group_EstimateDuration target) (w, g) = (w, g)"
    by simp
  show "\<exists>w' g'. SCurveTraj_Group_SetTarget E (w, g) target = ((w', g'), r) \<and> s g' = c"
  proof (cases "r = S_CURVE_SUCCESS")
    case True
    with i have "SCurveTraj_Group_SetTarget E (w, g) target =
        ((w, g\<lparr>running := True, s := c, now := 0\<rparr>), r)"
      unfolding group_set_target_unfold by simp
    then show ?thesis by simp
  next
    case False
    let ?g0 = "g\<lparr>running := False, s := c, now := 0\<rparr>"
    from False i have "SCurveTraj_Group_SetTarget E (w, g) target =
        (SCurveTraj_Group_Stop (w, ?g0), r)"
      unfolding group_set_target_unfold by simp
    then have "SCurveTraj_Group_SetTarget E (w, g) target =
        ((fst (SCurveTraj_Group_Stop (w, ?g0)), snd (SCurveTraj_Group_Stop (w, ?g0))), r)"
      by simp
    moreover have "s (snd (SCurveTraj_Group_Stop (w, ?g0))) = c"
      by (simp only: group_stop_curve) simp
    ultimately show ?thesis by blast
  qed
qed

lemma ex_axis_ok_init:
  "axis_s_curve_init ex_ext ex_motors ex_axis (running ex_axis) 90
     = (\<lparr>total_time = 80, profile = (10, 2, 3)\<rparr>, S_CURVE_SUCCESS)"
  by (simp add: axis_s_curve_init_args ex_ext_def ex_motors_def ex_axis_def)

lemma ex_group_ok_init:
  "group_s_curve_init ex_ext ex_motors ex_group (running ex_group) 90
     = (\<lparr>total_time = 78, profile = (12, 3, 3)\<rparr>, S_CURVE_SUCCESS)"
  by (simp add: group_s_curve_init_def ex_ext_def ex_motors_def ex_group_def fdiv_def
      MotorCtrl_GetAngle_def MotorCtrl_GetVelocity_def numeral_2_eq_2)

theorem estimate_duration_frame_witness:
  "axis_s_curve_init ex_ext ex_motors ex_axis (running ex_axis) 90
     = (\<lparr>total_time = 80, profile = (10, 2, 3)\<rparr>, S_CURVE_SUCCESS) \<and>
   SCurveTraj_Axis_EstimateDuration ex_ext ex_motors ex_axis 90 = 80 \<and>
   axis_s_curve_init ex_ext ex_motors (ex_axis\<lparr>v_max := 0\<rparr>) (running (ex_axis\<lparr>v_max := 0\<rparr>)) 90
     = (\<lparr>total_time = 80, profile = (10, 2, 3)\<rparr>, S_CURVE_FAILED) \<and>
   SCurveTraj_Axis_EstimateDuration ex_ext ex_motors (ex_axis\<lparr>v_max := 0\<rparr>) 90 = - 1 \<and>
   group_items_valid ex_group \<and>
   group_s_curve_init ex_ext ex_motors ex_group (running ex_group) 90
     = (\<lparr>total_time = 78, profile = (12, 3, 3)\<rparr>, S_CURVE_SUCCESS) \<and>
   group_do ex_ext (Group_EstimateDuration 90 :: (real, real) group_op) (ex_motors, ex_group)
     = (ex_motors, ex_group) \<and>
   SCurveTraj_Group_EstimateDuration ex_ext ex_motors ex_group 90 = 78"
proof -
  have v: "group_items_valid ex_group" by (simp add: group_items_valid_def ex_group_def)
  from estimate_duration_frame [where E = ex_ext and w = ex_motors and f = ex_axis
      and target = 90] ex_axis_ok_init
  have a: "SCurveTraj_Axis_EstimateDuration ex_ext ex_motors ex_axis 90 = 80" by simp
  from estimate_duration_frame [where E = ex_ext and w = ex_motors and f = "ex_axis\<lparr>v_max := 0\<rparr>"
      and target = 90] ex_axis_fail_init
  have b: "SCurveTraj_Axis_EstimateDuration ex_ext ex_motors (ex_axis\<lparr>v_max := 0\<rparr>) 90 = - 1"
    by simp
  from estimate_duration_frame [where E = ex_ext and w = ex_motors and g = ex_group
      and target = 90, THEN conjunct2, THEN conjunct2, rule_format, OF conjI,
      OF v ex_group_ok_init]
  have c: "group_do ex_ext (Group_EstimateDuration 90 :: (real, real) group_op) (ex_motors, ex_group)
     = (ex_motors, ex_group) \<and>
     SCurveTraj_Group_EstimateDuration ex_ext ex_motors ex_group 90 = 78"
    by (simp del: group_do.simps)
  from a b c v ex_axis_ok_init ex_axis_fail_init ex_group_ok_init show ?thesis by blast
qed

section \<open>The update tick of the group follower\<close>

lemma group_update_loop:
  "n \<le> length its \<Longrightarrow>
   fold (group_update_item E ff target) [0..<n] (w, its) = (w', its') \<Longrightarrow>
   length its' = length its \<and>
   (\<forall>i<length its. its' ! i =
      (if i < n
       then (its ! i)\<lparr>item_pd := PD_Calculate E
              ((item_pd (its ! i))\<lparr>ref := target, fdb := angle (w (item_ctrl (its ! i)))\<rparr>)\<rparr>
       else its ! i)) \<and>
   (\<forall>c. angle (w' c) = angle (w c) \<and> velocity (w' c) = velocity (w c)) \<and>
   (\<forall>c. (\<forall>i<n. item_ctrl (its ! i) \<noteq> c) \<longrightarrow> w' c = w c) \<and>
   (\<forall>i<n. (\<forall>j<n. i < j \<longrightarrow> item_ctrl (its ! j) \<noteq> item_ctrl (its ! i)) \<longrightarrow>
      vel_ref (w' (item_ctrl (its ! i))) =
        DPS2RPM (ff + output (PD_Calculate E
          ((item_pd (its ! i))\<lparr>ref := target, fdb := angle (w (item_ctrl (its ! i)))\<rparr>))))"
proof (induction n arbitrary: w' its')
  case 0
  then show ?case by simp
next
  case (Suc n)
  obtain w1 its1 where prev: "fold (group_update_item E ff target) [0..<n] (w, its) = (w1, its1)"
    by (cases "fold (group_update_item E ff target) [0..<n] (w, its)")
  from Suc.prems(1) have n: "n < length its" by simp
  with Suc.IH [OF _ prev] have
    len: "length its1 = length its" and
    nth: "\<And>i. i < length its \<Longrightarrow> its1 ! i =
      (if i < n
       then (its ! i)\<lparr>item_pd := PD_Calculate E
              ((item_pd (its ! i))\<lparr>ref := target, fdb := angle (w (item_ctrl (its ! i)))\<rparr>)\<rparr>
       else its ! i)" and
    meas: "\<And>c. angle (w1 c) = angle (w c) \<and> velocity (w1 c) = velocity (w c)" and
    other: "\<And>c. (\<forall>i<n. item_ctrl (its ! i) \<noteq> c) \<Longrightarrow> w1 c = w c" and
    cmd: "\<And>i. i < n \<Longrightarrow> (\<forall>j<n. i < j \<longrightarrow> item_ctrl (its ! j) \<noteq> item_ctrl (its ! i)) \<Longrightarrow>
      vel_ref (w1 (item_ctrl (its ! i))) =
        DPS2RPM (ff + output (PD_Calculate E
          ((item_pd (its ! i))\<lparr>ref := target, fdb := angle (w (item_ctrl (its ! i)))\<rparr>)))"
    by simp_all
  define pdn where "pdn = PD_Calculate E
     ((item_pd (its ! n))\<lparr>ref := target, fdb := angle (w (item_ctrl (its ! n)))\<rparr>)"
  have n1: "its1 ! n = its ! n" using nth [OF n] by simp
  from Suc.prems(2) prev have step: "group_update_item E ff target n (w1, its1) = (w', its')"
    by (simp only: fold_upt_Suc)
  from n len have n': "n < length its1" by simp
  from step n' have its': "its' = its1[n := (its ! n)\<lparr>item_pd := pdn\<rparr>]"
    by (simp add: Let_def n1 pdn_def MotorCtrl_GetAngle_def meas)
  from step n' have w': "w' = Motor_VelCtrl_SetRef (item_ctrl (its ! n)) (DPS2RPM (ff + output pdn)) w1"
    by (simp add: Let_def n1 pdn_def MotorCtrl_GetAngle_def meas)
  show ?case
  proof (intro conjI allI impI)
    show "length its' = length its" using its' len by simp
  next
    fix i assume "i < length its"
    then show "its' ! i =
      (if i < Suc n
       then (its ! i)\<lparr>item_pd := PD_Calculate E
              ((item_pd (its ! i))\<lparr>ref := target, fdb := angle (w (item_ctrl (its ! i)))\<rparr>)\<rparr>
       else its ! i)"
      using its' len n nth [of i] by (cases "i = n") (auto simp: less_Suc_eq pdn_def)
  next
    fix c show "angle (w' c) = angle (w c)"
      using w' meas [of c] by (auto simp: Motor_VelCtrl_SetRef_def)
    show "velocity (w' c) = velocity (w c)"
      using w' meas [of c] by (auto simp: Motor_VelCtrl_SetRef_def)
  next
    fix c assume "\<forall>i<Suc n. item_ctrl (its ! i) \<noteq> c"
    then show "w' c = w c"
      using w' other [of c] by (auto simp: Motor_VelCtrl_SetRef_def less_Suc_eq)
  next
    fix i
    assume i: "i < Suc n"
      and last: "\<forall>j<Suc n. i < j \<longrightarrow> item_ctrl (its ! j) \<noteq> item_ctrl (its ! i)"
    show "vel_ref (w' (item_ctrl (its ! i))) =
        DPS2RPM (ff + output (PD_Calculate E
          ((item_pd (its ! i))\<lparr>ref := target, fdb := angle (w (item_ctrl (its ! i)))\<rparr>)))"
    proof (cases "i = n")
      case True
      then show ?thesis using w' by (simp add: Motor_VelCtrl_SetRef_def pdn_def)
    next
      case False
      with i have lt: "i < n" by simp
      with last have ne: "item_ctrl (its ! n) \<noteq> item_ctrl (its ! i)" by simp
      from last have "\<forall>j<n. i < j \<longrightarrow> item_ctrl (its ! j) \<noteq> item_ctrl (its ! i)" by simp
      from cmd [OF lt this] ne w' show ?thesis by (auto simp: Motor_VelCtrl_SetRef_def)
    qed
  qed
qed

text \<open>
  C7 (as amended). In a tick of a running group with a valid array, the feedforward
  velocity and the target position are the values of the shared curve at the new
  elapsed time, the same for every item. Item \<open>i\<close> gets the corrector computed from
  that target and from the angle measured on its own motor, and its motor is commanded
  with the shared feedforward plus its own correction, converted to rpm (the command
  that stays in the motor when no later item uses the same handle). The commands of two
  items can differ only through their corrections: where two such commands differ,
  the outputs of the two correctors differ.
\<close>

theorem group_update_tick:
  "running g \<and> group_items_valid g \<and> SCurveTraj_Group_Update E (w, g) = (w', g') \<longrightarrow>
     (let t = now g + update_interval g;
          ff_velocity = SCurve_CalcV E (s g) t;
          target = SCurve_CalcX E (s g) t;
          correction = (\<lambda>i. PD_Calculate E
             ((item_pd (items g ! i))\<lparr>ref := target, fdb := angle (w (item_ctrl (items g ! i)))\<rparr>))
      in now g' = t \<and> item_count g' = item_count g \<and>
         (\<forall>i<item_count g.
            item_ctrl (items g' ! i) = item_ctrl (items g ! i) \<and>
            item_pd (items g' ! i) = correction i \<and>
            ((\<forall>j<item_count g. i < j \<longrightarrow> item_ctrl (items g ! j) \<noteq> item_ctrl (items g ! i)) \<longrightarrow>
               vel_ref (w' (item_ctrl (items g ! i))) =
                 DPS2RPM (ff_velocity + output (correction i)))) \<and>
         (\<forall>i<item_count g. \<forall>j<item_count g.
            (\<forall>k<item_count g. i < k \<longrightarrow> item_ctrl (items g ! k) \<noteq> item_ctrl (items g ! i)) \<and>
            (\<forall>k<item_count g. j < k \<longrightarrow> item_ctrl (items g ! k) \<noteq> item_ctrl (items g ! j)) \<and>
            vel_ref (w' (item_ctrl (items g ! i))) \<noteq> vel_ref (w' (item_ctrl (items g ! j)))
            \<longrightarrow> output (correction i) \<noteq> output (correction j)))"
proof
  assume a: "running g \<and> group_items_valid g \<and> SCurveTraj_Group_Update E (w, g) = (w', g')"
  define t where "t = now g + update_interval g"
  define ff where "ff = SCurve_CalcV E (s g) t"
  define target where "target = SCurve_CalcX E (s g) t"
  define correction where "correction = (\<lambda>i. PD_Calculate E
             ((item_pd (items g ! i))\<lparr>ref := target, fdb := angle (w (item_ctrl (items g ! i)))\<rparr>))"
  obtain w1 its1 where loop:
    "fold (group_update_item E ff target) [0..<item_count g] (w, items g) = (w1, its1)"
    by (cases "fold (group_update_item E ff target) [0..<item_count g] (w, items g)")
  from a have n: "item_count g \<le> length (items g)" by (simp add: group_items_valid_def)
  from a have r: "running g" and u: "SCurveTraj_Group_Update E (w, g) = (w', g')"
    by blast+
  from u r loop have w': "w' = w1" and g': "g' = g\<lparr>now := t, items := its1\<rparr>"
    by (simp_all add: Let_def t_def ff_def target_def)
  note inv = group_update_loop [OF n loop]
  have items: "\<forall>i<item_count g.
            item_ctrl (items g' ! i) = item_ctrl (items g ! i) \<and>
            item_pd (items g' ! i) = correction i \<and>
            ((\<forall>j<item_count g. i < j \<longrightarrow> item_ctrl (items g ! j) \<noteq> item_ctrl (items g ! i)) \<longrightarrow>
               vel_ref (w' (item_ctrl (items g ! i))) = DPS2RPM (ff + output (correction i)))"
  proof (intro allI impI conjI)
    fix i assume i: "i < item_count g"
    with n have il: "i < length (items g)" by simp
    from inv il i have it: "its1 ! i = (items g ! i)\<lparr>item_pd := correction i\<rparr>"
      by (simp add: correction_def)
    show "item_ctrl (items g' ! i) = item_ctrl (items g ! i)" using g' it by simp
    show "item_pd (items g' ! i) = correction i" using g' it by simp
    assume "\<forall>j<item_count g. i < j \<longrightarrow> item_ctrl (items g ! j) \<noteq> item_ctrl (items g ! i)"
    with inv i show "vel_ref (w' (item_ctrl (items g ! i))) = DPS2RPM (ff + output (correction i))"
      unfolding w' correction_def by blast
  qed
  have differ: "\<forall>i<item_count g. \<forall>j<item_count g.
            (\<forall>k<item_count g. i < k \<longrightarrow> item_ctrl (items g ! k) \<noteq> item_ctrl (items g ! i)) \<and>
            (\<forall>k<item_count g. j < k \<longrightarrow> item_ctrl (items g ! k) \<noteq> item_ctrl (items g ! j)) \<and>
            vel_ref (w' (item_ctrl (items g ! i))) \<noteq> vel_ref (w' (item_ctrl (items g ! j)))
            \<longrightarrow> output (correction i) \<noteq> output (correction j)"
  proof (intro allI impI notI)
    fix i j
    assume i: "i < item_count g" and j: "j < item_count g"
      and h: "(\<forall>k<item_count g. i < k \<longrightarrow> item_ctrl (items g ! k) \<noteq> item_ctrl (items g ! i)) \<and>
            (\<forall>k<item_count g. j < k \<longrightarrow> item_ctrl (items g ! k) \<noteq> item_ctrl (items g ! j)) \<and>
            vel_ref (w' (item_ctrl (items g ! i))) \<noteq> vel_ref (w' (item_ctrl (items g ! j)))"
      and eq: "output (correction i) = output (correction j)"
    from items i h
    have ci: "vel_ref (w' (item_ctrl (items g ! i))) = DPS2RPM (ff + output (correction i))"
      by blast
    from items j h
    have cj: "vel_ref (w' (item_ctrl (items g ! j))) = DPS2RPM (ff + output (correction j))"
      by blast
    from ci cj eq h show False by simp
  qed
  have "now g' = t" "item_count g' = item_count g" using g' by simp_all
  with items differ have "now g' = t \<and> item_count g' = item_count g \<and>
         (\<forall>i<item_count g.
            item_ctrl (items g' ! i) = item_ctrl (items g ! i) \<and>
            item_pd (items g' ! i) = correction i \<and>
            ((\<forall>j<item_count g. i < j \<longrightarrow> item_ctrl (items g ! j) \<noteq> item_ctrl (items g ! i)) \<longrightarrow>
               vel_ref (w' (item_ctrl (items g ! i))) =
                 DPS2RPM (ff + output (correction i)))) \<and>
         (\<forall>i<item_count g. \<forall>j<item_count g.
            (\<forall>k<item_count g. i < k \<longrightarrow> item_ctrl (items g ! k) \<noteq> item_ctrl (items g ! i)) \<and>
            (\<forall>k<item_count g. j < k \<longrightarrow> item_ctrl (items g ! k) \<noteq> item_ctrl (items g ! j)) \<and>
            vel_ref (w' (item_ctrl (items g ! i))) \<noteq> vel_ref (w' (item_ctrl (items g ! j)))
            \<longrightarrow> output (correction i) \<noteq> output (correction j))"
    by blast
  then show "(let t = now g + update_interval g;
          ff_velocity = SCurve_CalcV E (s g) t;
          target = SCurve_CalcX E (s g) t;
          correction = (\<lambda>i. PD_Calculate E
             ((item_pd (items g ! i))\<lparr>ref := target, fdb := angle (w (item_ctrl (items g ! i)))\<rparr>))
      in now g' = t \<and> item_count g' = item_count g \<and>
         (\<forall>i<item_count g.
            item_ctrl (items g' ! i) = item_ctrl (items g ! i) \<and>
            item_pd (items g' ! i) = correction i \<and>
            ((\<forall>j<item_count g. i < j \<longrightarrow> item_ctrl (items g ! j) \<noteq> item_ctrl (items g ! i)) \<longrightarrow>
               vel_ref (w' (item_ctrl (items g ! i))) =
                 DPS2RPM (ff_velocity + output (correction i)))) \<and>
         (\<forall>i<item_count g. \<forall>j<item_count g.
            (\<forall>k<item_count g. i < k \<longrightarrow> item_ctrl (items g ! k) \<noteq> item_ctrl (items g ! i)) \<and>
            (\<forall>k<item_count g. j < k \<longrightarrow> item_ctrl (items g ! k) \<noteq> item_ctrl (items g ! j)) \<and>
            vel_ref (w' (item_ctrl (items g ! i))) \<noteq> vel_ref (w' (item_ctrl (items g ! j)))
            \<longrightarrow> output (correction i) \<noteq> output (correction j)))"
    unfolding Let_def t_def ff_def target_def correction_def .
qed

theorem group_update_tick_witness:
  "running ex_group \<and> group_items_valid ex_group \<and>
   angle (ex_motors 1) \<noteq> angle (ex_motors 2) \<and>
   vel_ref (fst (SCurveTraj_Group_Update ex_ext (ex_motors, ex_group)) 1) = - 2 / 3 \<and>
   vel_ref (fst (SCurveTraj_Group_Update ex_ext (ex_motors, ex_group)) 2) = - 2 \<and>
   output (item_pd (items (snd (SCurveTraj_Group_Update ex_ext (ex_motors, ex_group))) ! 0)) = - 14 \<and>
   output (item_pd (items (snd (SCurveTraj_Group_Update ex_ext (ex_motors, ex_group))) ! 1)) = - 22 \<and>
   vel_ref (fst (SCurveTraj_Group_Update ex_ext (ex_motors, ex_group)) 1)
     \<noteq> vel_ref (fst (SCurveTraj_Group_Update ex_ext (ex_motors, ex_group)) 2) \<and>
   output (PD_Calculate ex_ext (\<lparr>ref = 3, fdb = 10, output = 0, pd_more = 2\<rparr>))
     \<noteq> output (PD_Calculate ex_ext (\<lparr>ref = 3, fdb = 14, output = 0, pd_more = 2\<rparr>)) \<and>
   now (snd (SCurveTraj_Group_Update ex_ext (ex_motors, ex_group))) = 3"
proof -
  have r: "running ex_group" by (simp add: ex_group_def)
  have v: "group_items_valid ex_group" by (simp add: group_items_valid_def ex_group_def)
  have m: "angle (ex_motors 1) \<noteq> angle (ex_motors 2)" by (simp add: ex_motors_def)
  have u: "SCurveTraj_Group_Update ex_ext (ex_motors, ex_group) =
     (fst (SCurveTraj_Group_Update ex_ext (ex_motors, ex_group)),
      snd (SCurveTraj_Group_Update ex_ext (ex_motors, ex_group)))" by simp
  note inst = group_update_tick [where g = ex_group and E = ex_ext and w = ex_motors
      and w' = "fst (SCurveTraj_Group_Update ex_ext (ex_motors, ex_group))"
      and g' = "snd (SCurveTraj_Group_Update ex_ext (ex_motors, ex_group))",
      unfolded Let_def, THEN mp, OF conjI, OF r conjI, OF v u]
  have c0: "0 < item_count ex_group" and c1: "1 < item_count ex_group"
    by (simp_all add: ex_group_def)
  have l0: "\<forall>j<item_count ex_group. 0 < j \<longrightarrow>
      item_ctrl (items ex_group ! j) \<noteq> item_ctrl (items ex_group ! 0)"
    by (simp add: ex_group_def less_Suc_eq numeral_2_eq_2)
  have l1: "\<forall>j<item_count ex_group. 1 < j \<longrightarrow>
      item_ctrl (items ex_group ! j) \<noteq> item_ctrl (items ex_group ! 1)"
    by (simp add: ex_group_def less_Suc_eq numeral_2_eq_2)
  from inst have n: "now (snd (SCurveTraj_Group_Update ex_ext (ex_motors, ex_group))) = 3"
    by (simp add: ex_group_def del: SCurveTraj_Group_Update.simps)
  from inst [THEN conjunct2, THEN conjunct2, THEN conjunct1, THEN spec, of 0, THEN mp, OF c0,
      THEN conjunct2, THEN conjunct2, THEN mp, OF l0]
  have a: "vel_ref (fst (SCurveTraj_Group_Update ex_ext (ex_motors, ex_group)) 1) = - 2 / 3"
    by (simp add: ex_group_def ex_ext_def ex_motors_def DPS2RPM_def
        del: SCurveTraj_Group_Update.simps)
  from inst [THEN conjunct2, THEN conjunct2, THEN conjunct1, THEN spec, of 1, THEN mp, OF c1,
      THEN conjunct2, THEN conjunct2, THEN mp, OF l1]
  have b: "vel_ref (fst (SCurveTraj_Group_Update ex_ext (ex_motors, ex_group)) 2) = - 2"
    by (simp add: ex_group_def ex_ext_def ex_motors_def DPS2RPM_def
        del: SCurveTraj_Group_Update.simps)
  from inst [THEN conjunct2, THEN conjunct2, THEN conjunct1, THEN spec, of 0, THEN mp, OF c0,
      THEN conjunct2, THEN conjunct1]
  have o0: "output (item_pd (items (snd (SCurveTraj_Group_Update ex_ext (ex_motors, ex_group))) ! 0))
              = - 14"
    by (simp add: ex_group_def ex_ext_def ex_motors_def del: SCurveTraj_Group_Update.simps)
  from inst [THEN conjunct2, THEN conjunct2, THEN conjunct1, THEN spec, of 1, THEN mp, OF c1,
      THEN conjunct2, THEN conjunct1]
  have o1: "output (item_pd (items (snd (SCurveTraj_Group_Update ex_ext (ex_motors, ex_group))) ! 1))
              = - 22"
    by (simp add: ex_group_def ex_ext_def ex_motors_def del: SCurveTraj_Group_Update.simps)
  from a b have ne: "vel_ref (fst (SCurveTraj_Group_Update ex_ext (ex_motors, ex_group)) 1)
     \<noteq> vel_ref (fst (SCurveTraj_Group_Update ex_ext (ex_motors, ex_group)) 2)" by simp
  then have ne': "vel_ref (fst (SCurveTraj_Group_Update ex_ext (ex_motors, ex_group))
                             (item_ctrl (items ex_group ! 0)))
     \<noteq> vel_ref (fst (SCurveTraj_Group_Update ex_ext (ex_motors, ex_group))
                      (item_ctrl (items ex_group ! 1)))" by (simp add: ex_group_def)
  from inst [THEN conjunct2, THEN conjunct2, THEN conjunct2, THEN spec, of 0, THEN mp, OF c0,
      THEN spec, of 1, THEN mp, OF c1, THEN mp, OF conjI, OF l0 conjI, OF l1 ne']
  have d: "output (PD_Calculate ex_ext (\<lparr>ref = 3, fdb = 10, output = 0, pd_more = 2\<rparr>))
     \<noteq> output (PD_Calculate ex_ext (\<lparr>ref = 3, fdb = 14, output = 0, pd_more = 2\<rparr>))"
    by (simp add: ex_group_def ex_motors_def ex_ext_def)
  from r v m a b o0 o1 ne d n show ?thesis by blast
qed

text \<open>
  Distinct measured positions alone do not force distinct commands: with a corrector
  of gain 0 the two motors, measured at 10 and at 14, both receive the feedforward
  velocity and nothing else.
\<close>

theorem group_update_distinct_counterexample:
  "running (ex_group\<lparr>items :=
       [\<lparr>item_ctrl = 1, item_pd = \<lparr>ref = 0, fdb = 0, output = 0, pd_more = 0\<rparr>\<rparr>,
        \<lparr>item_ctrl = 2, item_pd = \<lparr>ref = 0, fdb = 0, output = 0, pd_more = 0\<rparr>\<rparr>]\<rparr>) \<and>
   MotorCtrl_GetAngle ex_motors 1 = 10 \<and> MotorCtrl_GetAngle ex_motors 2 = 14 \<and>
   vel_ref (fst (SCurveTraj_Group_Update ex_ext (ex_motors, ex_group\<lparr>items :=
       [\<lparr>item_ctrl = 1, item_pd = \<lparr>ref = 0, fdb = 0, output = 0, pd_more = 0\<rparr>\<rparr>,
        \<lparr>item_ctrl = 2, item_pd = \<lparr>ref = 0, fdb = 0, output = 0, pd_more = 0\<rparr>\<rparr>]\<rparr>)) 1) = 5 / 3 \<and>
   vel_ref (fst (SCurveTraj_Group_Update ex_ext (ex_motors, ex_group\<lparr>items :=
       [\<lparr>item_ctrl = 1, item_pd = \<lparr>ref = 0, fdb = 0, output = 0, pd_more = 0\<rparr>\<rparr>,
        \<lparr>item_ctrl = 2, item_pd = \<lparr>ref = 0, fdb = 0, output = 0, pd_more = 0\<rparr>\<rparr>]\<rparr>)) 2) = 5 / 3"
  by (simp add: ex_group_def ex_ext_def ex_motors_def Let_def numeral_2_eq_2
      MotorCtrl_GetAngle_def Motor_VelCtrl_SetRef_def DPS2RPM_def)

section \<open>Initialisation\<close>

lemma group_item_overwrite:
  "(it :: 'q SCurveTrajFollower_GroupItem_t)\<lparr>item_ctrl := a, item_pd := b\<rparr>
     = \<lparr>item_ctrl = a, item_pd = b\<rparr>"
  by (cases it) simp

lemma group_init_loop:
  "n \<le> length its \<Longrightarrow>
   length (fold (group_init_item E cfgs) [0..<n] its) = length its \<and>
   (\<forall>i<length its. fold (group_init_item E cfgs) [0..<n] its ! i =
      (if i < n
       then \<lparr>item_ctrl = ic_ctrl (cfgs ! i),
             item_pd = PD_Init E (item_pd (its ! i)) (ic_error_pd (cfgs ! i))\<rparr>
       else its ! i))"
proof (induction n)
  case 0
  then show ?case by simp
next
  case (Suc n)
  define its1 where "its1 = fold (group_init_item E cfgs) [0..<n] its"
  from Suc.prems have n: "n < length its" by simp
  with Suc.IH have
    len: "length its1 = length its" and
    nth: "\<And>i. i < length its \<Longrightarrow> its1 ! i =
      (if i < n
       then \<lparr>item_ctrl = ic_ctrl (cfgs ! i),
             item_pd = PD_Init E (item_pd (its ! i)) (ic_error_pd (cfgs ! i))\<rparr>
       else its ! i)"
    by (simp_all add: its1_def)
  have n1: "its1 ! n = its ! n" using nth [OF n] by simp
  from n len have n': "n < length its1" by simp
  have step: "fold (group_init_item E cfgs) [0..<Suc n] its =
      its1[n := \<lparr>item_ctrl = ic_ctrl (cfgs ! n),
                  item_pd = PD_Init E (item_pd (its ! n)) (ic_error_pd (cfgs ! n))\<rparr>]"
    unfolding fold_upt_Suc its1_def [symmetric]
    using n' by (simp add: group_init_item_def Let_def n1 group_item_overwrite)
  show ?case
  proof (intro conjI allI impI)
    show "length (fold (group_init_item E cfgs) [0..<Suc n] its) = length its"
      unfolding step using len by simp
  next
    fix i assume "i < length its"
    then show "fold (group_init_item E cfgs) [0..<Suc n] its ! i =
      (if i < Suc n
       then \<lparr>item_ctrl = ic_ctrl (cfgs ! i),
             item_pd = PD_Init E (item_pd (its ! i)) (ic_error_pd (cfgs ! i))\<rparr>
       else its ! i)"
      unfolding step using len n nth [of i] by (cases "i = n") (auto simp: less_Suc_eq)
  qed
qed

text \<open>
  C9 (as amended). With a configuration whose update interval is 0, \<^verbatim>\<open>Init\<close> returns at
  once: the follower keeps every field, \<^verbatim>\<open>running\<close> included, and nothing of the
  configuration is applied. With a non-zero update interval, \<^verbatim>\<open>Init\<close> stores the
  update interval, the three limits and the motor handle (for a group with valid arrays:
  the array, the item count and the handle of every item), initialises the corrector
  (of every item) from its configuration, and sets \<^verbatim>\<open>now\<close> to 0 and \<^verbatim>\<open>running\<close> to
  false; the curve is not touched.
\<close>

theorem init_effect:
  "(cfg_update_interval config = 0 \<longrightarrow> SCurveTraj_Axis_Init E f config = f) \<and>
   (cfg_update_interval config \<noteq> 0 \<longrightarrow>
      SCurveTraj_Axis_Init E f config =
        f\<lparr>running := False,
           update_interval := cfg_update_interval config,
           v_max := cfg_v_max config, a_max := cfg_a_max config, j_max := cfg_j_max config,
           now := 0,
           pd := PD_Init E (pd f) (error_pd config),
           ctrl := motor_vel_ctrl config\<rparr>) \<and>
   (gcfg_update_interval gconfig = 0 \<longrightarrow> SCurveTraj_Group_Init E g gconfig = g) \<and>
   (gcfg_update_interval gconfig \<noteq> 0 \<and> group_config_valid gconfig \<longrightarrow>
      (let g' = SCurveTraj_Group_Init E g gconfig
       in \<not> running g' \<and> now g' = 0 \<and> s g' = s g \<and>
          update_interval g' = gcfg_update_interval gconfig \<and>
          v_max g' = gcfg_v_max gconfig \<and> a_max g' = gcfg_a_max gconfig \<and>
          j_max g' = gcfg_j_max gconfig \<and>
          item_count g' = cfg_item_count gconfig \<and>
          group_items_valid g' \<and>
          (\<forall>i<cfg_item_count gconfig.
             item_ctrl (items g' ! i) = ic_ctrl (item_configs gconfig ! i) \<and>
             item_pd (items g' ! i) =
               PD_Init E (item_pd (cfg_items gconfig ! i))
                 (ic_error_pd (item_configs gconfig ! i)))))"
proof (intro conjI impI)
  show "cfg_update_interval config = 0 \<Longrightarrow> SCurveTraj_Axis_Init E f config = f"
    by (simp add: SCurveTraj_Axis_Init_def)
  show "cfg_update_interval config \<noteq> 0 \<Longrightarrow>
      SCurveTraj_Axis_Init E f config =
        f\<lparr>running := False,
           update_interval := cfg_update_interval config,
           v_max := cfg_v_max config, a_max := cfg_a_max config, j_max := cfg_j_max config,
           now := 0,
           pd := PD_Init E (pd f) (error_pd config),
           ctrl := motor_vel_ctrl config\<rparr>"
    by (simp add: SCurveTraj_Axis_Init_def)
  show "gcfg_update_interval gconfig = 0 \<Longrightarrow> SCurveTraj_Group_Init E g gconfig = g"
    by (simp add: SCurveTraj_Group_Init_def)
next
  assume a: "gcfg_update_interval gconfig \<noteq> 0 \<and> group_config_valid gconfig"
  then have nz: "gcfg_update_interval gconfig \<noteq> 0"
    and n: "cfg_item_count gconfig \<le> length (cfg_items gconfig)"
    by (simp_all add: group_config_valid_def)
  define its' where "its' = fold (group_init_item E (item_configs gconfig))
                              [0..<cfg_item_count gconfig] (cfg_items gconfig)"
  from nz have g': "SCurveTraj_Group_Init E g gconfig =
      g\<lparr>running := False, update_interval := gcfg_update_interval gconfig,
         v_max := gcfg_v_max gconfig, a_max := gcfg_a_max gconfig,
         j_max := gcfg_j_max gconfig, now := 0,
         items := its', item_count := cfg_item_count gconfig\<rparr>"
    by (simp add: SCurveTraj_Group_Init_def Let_def its'_def)
  note inv = group_init_loop [OF n, of E "item_configs gconfig", folded its'_def]
  have items: "\<forall>i<cfg_item_count gconfig.
             item_ctrl (its' ! i) = ic_ctrl (item_configs gconfig ! i) \<and>
             item_pd (its' ! i) =
               PD_Init E (item_pd (cfg_items gconfig ! i))
                 (ic_error_pd (item_configs gconfig ! i))"
    using inv n by simp
  have valid: "cfg_item_count gconfig \<le> length its'" using inv n by simp
  show "(let g' = SCurveTraj_Group_Init E g gconfig
       in \<not> running g' \<and> now g' = 0 \<and> s g' = s g \<and>
          update_interval g' = gcfg_update_interval gconfig \<and>
          v_max g' = gcfg_v_max gconfig \<and> a_max g' = gcfg_a_max gconfig \<and>
          j_max g' = gcfg_j_max gconfig \<and>
          item_count g' = cfg_item_count gconfig \<and>
          group_items_valid g' \<and>
          (\<forall>i<cfg_item_count gconfig.
             item_ctrl (items g' ! i) = ic_ctrl (item_configs gconfig ! i) \<and>
             item_pd (items g' ! i) =
               PD_Init E (item_pd (cfg_items gconfig ! i))
                 (ic_error_pd (item_configs gconfig ! i))))"
    unfolding Let_def g' using items valid by (simp add: group_items_valid_def)
qed

text \<open>
  A follower that is running when \<^verbatim>\<open>Init\<close> is called with a zero update interval is
  still running afterwards.
\<close>

theorem init_zero_interval_counterexample:
  "cfg_update_interval (ex_axis_config\<lparr>cfg_update_interval := 0\<rparr>) = 0 \<and>
   running (SCurveTraj_Axis_Init ex_ext ex_axis (ex_axis_config\<lparr>cfg_update_interval := 0\<rparr>))"
  by (simp add: SCurveTraj_Axis_Init_def ex_axis_def)

theorem init_effect_witness:
  "cfg_update_interval (ex_axis_config\<lparr>cfg_update_interval := 0\<rparr>) = 0 \<and>
   SCurveTraj_Axis_Init ex_ext ex_axis (ex_axis_config\<lparr>cfg_update_interval := 0\<rparr>) = ex_axis \<and>
   cfg_update_interval ex_axis_config \<noteq> 0 \<and>
   SCurveTraj_Axis_Init ex_ext ex_axis ex_axis_config =
     \<lparr>running = False, update_interval = 1 / 2,
      s = \<lparr>total_time = 5, profile = (0, 1, 3)\<rparr>,
      v_max = 90, a_max = 180, j_max = 360, now = 0,
      pd = \<lparr>ref = 0, fdb = 0, output = 0, pd_more = 5\<rparr>, ctrl = 2\<rparr> \<and>
   gcfg_update_interval (ex_group_config\<lparr>gcfg_update_interval := 0\<rparr>) = 0 \<and>
   SCurveTraj_Group_Init ex_ext ex_group (ex_group_config\<lparr>gcfg_update_interval := 0\<rparr>) = ex_group \<and>
   gcfg_update_interval ex_group_config \<noteq> 0 \<and> group_config_valid ex_group_config \<and>
   \<not> running (SCurveTraj_Group_Init ex_ext ex_group ex_group_config) \<and>
   now (SCurveTraj_Group_Init ex_ext ex_group ex_group_config) = 0 \<and>
   item_count (SCurveTraj_Group_Init ex_ext ex_group ex_group_config) = 2 \<and>
   items (SCurveTraj_Group_Init ex_ext ex_group ex_group_config) ! 1 =
     \<lparr>item_ctrl = 1, item_pd = \<lparr>ref = 0, fdb = 0, output = 0, pd_more = 6\<rparr>\<rparr>"
proof -
  have z: "cfg_update_interval (ex_axis_config\<lparr>cfg_update_interval := 0\<rparr>) = 0" by simp
  have nz: "cfg_update_interval ex_axis_config \<noteq> 0" by (simp add: ex_axis_config_def)
  have gz: "gcfg_update_interval (ex_group_config\<lparr>gcfg_update_interval := 0\<rparr>) = 0" by simp
  have gnz: "gcfg_update_interval ex_group_config \<noteq> 0" by (simp add: ex_group_config_def)
  have gv: "group_config_valid ex_group_config"
    by (simp add: group_config_valid_def ex_group_config_def)
  from init_effect [where E = ex_ext and f = ex_axis
      and config = "ex_axis_config\<lparr>cfg_update_interval := 0\<rparr>"] z
  have a: "SCurveTraj_Axis_Init ex_ext ex_axis (ex_axis_config\<lparr>cfg_update_interval := 0\<rparr>)
             = ex_axis" by blast
  from init_effect [where E = ex_ext and f = ex_axis and config = ex_axis_config] nz
  have "SCurveTraj_Axis_Init ex_ext ex_axis ex_axis_config =
        ex_axis\<lparr>running := False,
           update_interval := cfg_update_interval ex_axis_config,
           v_max := cfg_v_max ex_axis_config, a_max := cfg_a_max ex_axis_config,
           j_max := cfg_j_max ex_axis_config,
           now := 0,
           pd := PD_Init ex_ext (pd ex_axis) (error_pd ex_axis_config),
           ctrl := motor_vel_ctrl ex_axis_config\<rparr>" by blast
  then have b: "SCurveTraj_Axis_Init ex_ext ex_axis ex_axis_config =
     \<lparr>running = False, update_interval = 1 / 2,
      s = \<lparr>total_time = 5, profile = (0, 1, 3)\<rparr>,
      v_max = 90, a_max = 180, j_max = 360, now = 0,
      pd = \<lparr>ref = 0, fdb = 0, output = 0, pd_more = 5\<rparr>, ctrl = 2\<rparr>"
    by (simp add: ex_axis_def ex_axis_config_def ex_ext_def)
  from init_effect [where E = ex_ext and g = ex_group
      and gconfig = "ex_group_config\<lparr>gcfg_update_interval := 0\<rparr>"] gz
  have c: "SCurveTraj_Group_Init ex_ext ex_group (ex_group_config\<lparr>gcfg_update_interval := 0\<rparr>)
             = ex_group" by blast
  have one: "1 < cfg_item_count ex_group_config" by (simp add: ex_group_config_def)
  note inst = init_effect [where E = ex_ext and g = ex_group and gconfig = ex_group_config,
      unfolded Let_def, THEN conjunct2, THEN conjunct2, THEN conjunct2, THEN mp,
      OF conjI, OF gnz gv]
  from inst have d: "\<not> running (SCurveTraj_Group_Init ex_ext ex_group ex_group_config)"
    and e: "now (SCurveTraj_Group_Init ex_ext ex_group ex_group_config) = 0" by blast+
  from inst have f: "item_count (SCurveTraj_Group_Init ex_ext ex_group ex_group_config) = 2"
    by (simp add: ex_group_config_def)
  from inst one have "item_ctrl (items (SCurveTraj_Group_Init ex_ext ex_group ex_group_config) ! 1)
          = ic_ctrl (item_configs ex_group_config ! 1) \<and>
        item_pd (items (SCurveTraj_Group_Init ex_ext ex_group ex_group_config) ! 1) =
          PD_Init ex_ext (item_pd (cfg_items ex_group_config ! 1))
            (ic_error_pd (item_configs ex_group_config ! 1))" by blast
  then have "item_ctrl (items (SCurveTraj_Group_Init ex_ext ex_group ex_group_config) ! 1) = 1 \<and>
     item_pd (items (SCurveTraj_Group_Init ex_ext ex_group ex_group_config) ! 1)
       = \<lparr>ref = 0, fdb = 0, output = 0, pd_more = 6\<rparr>"
    by (simp add: ex_group_config_def ex_ext_def)
  then have h: "items (SCurveTraj_Group_Init ex_ext ex_group ex_group_config) ! 1 =
     \<lparr>item_ctrl = 1, item_pd = \<lparr>ref = 0, fdb = 0, output = 0, pd_more = 6\<rparr>\<rparr>"
    by (cases "items (SCurveTraj_Group_Init ex_ext ex_group ex_group_config) ! 1") simp
  from z a nz b gz c gnz gv d e f h show ?thesis by blast
qed

end
